theory Spec2Isabelle
  imports Complex_Main
begin

section \<open>Values and errors\<close>

text \<open>
  The program (\<^verbatim>\<open>mlp_483.py\<close>) trains a two-layer perceptron with PyTorch and scores
  it with scikit-learn.  Tensors of 32-bit floats are modelled over the reals: a
  vector is a list, a matrix a list of rows.  Rounding is therefore outside the
  model; what is modelled is which arithmetic expression each step computes, on which
  operands, in which order, and where Python raises.
\<close>

type_synonym vec = "real list"
type_synonym matrix = "real list list"

text \<open>The Python exceptions the modelled code can raise.\<close>

datatype error = RuntimeError | IndexError | ValueError | UnboundLocalError | ZeroDivisionError

text \<open>
  A floating-point quotient: IEEE division is total, a zero divisor gives an
  infinity or a NaN instead of raising.
\<close>

datatype fl = Fin real | PosInf | NegInf | NaN

definition fdiv :: "real \<Rightarrow> real \<Rightarrow> fl" where
  "fdiv a b =
     (if b \<noteq> 0 then Fin (a / b)
      else if 0 < a then PosInf
      else if a < 0 then NegInf
      else NaN)"

section \<open>Class weights (module level, lines 263-268)\<close>

text \<open>
  \<^verbatim>\<open>class_counts = np.bincount(y_train)\<close>: the array of length \<open>max(y_train) + 1\<close>
  whose entry \<open>c\<close> counts the occurrences of \<open>c\<close>; the empty array for no labels.
\<close>

definition np_bincount :: "nat list \<Rightarrow> nat list" where
  "np_bincount ys =
     (if ys = [] then [] else map (\<lambda>c. count_list ys c) [0..<Suc (fold max ys 0)])"

text \<open>
  \<^verbatim>\<open>total_samples / (2 * class_counts[c])\<close> divides a Python int by a numpy integer:
  numpy's true division.  On a zero divisor numpy does not raise; under its default
  error state it emits a \<^verbatim>\<open>RuntimeWarning\<close> and returns inf (or nan for 0/0).
\<close>

datatype warning = RuntimeWarning

definition np_true_divide :: "nat \<Rightarrow> nat \<Rightarrow> fl \<times> warning list" where
  "np_true_divide a b = (fdiv (real a) (real b), if b = 0 then [RuntimeWarning] else [])"

text \<open>
  \<^verbatim>\<open>
  class_counts = np.bincount(y_train)
  total_samples = len(y_train)
  w0 = total_samples / (2 * class_counts[0])
  w1 = total_samples / (2 * class_counts[1])
  \<close>
  Indexing \<open>class_counts\<close> past its end raises IndexError.  The result is the pair
  \<open>(w0, w1)\<close> and the warnings emitted on the way.
\<close>

definition class_weights :: "nat list \<Rightarrow> error + ((fl \<times> fl) \<times> warning list)" where
  "class_weights y_train =
     (let class_counts = np_bincount y_train;
          total_samples = length y_train
      in if length class_counts \<le> 0 then Inl IndexError
         else let (w0, warn0) = np_true_divide total_samples (2 * class_counts ! 0)
              in if length class_counts \<le> 1 then Inl IndexError
                 else let (w1, warn1) = np_true_divide total_samples (2 * class_counts ! 1)
                      in Inr ((w0, w1), warn0 @ warn1))"

section \<open>The classifier (class MLP, lines 19-40)\<close>

text \<open>
  A trainable tensor: its values, the gradient accumulated in \<^verbatim>\<open>.grad\<close> (absent until
  a backward pass has run or after a reset), and the optimizer's per-parameter state,
  the momentum buffer (\<^verbatim>\<open>optimizer.state[p]['momentum_buffer']\<close>, absent until the first
  step).  PyTorch keys the optimizer state by the parameter object; the model keeps it
  in the parameter's slot.
\<close>

record 'a param =
  data :: 'a
  grad :: "'a option"
  momentum_buffer :: "'a option"

text \<open>
  \<^verbatim>\<open>nn.Linear(in_features, out_features)\<close> holds a weight of shape
  \<open>[out_features, in_features]\<close> (one row per output unit) and a bias of length
  \<open>out_features\<close>.
\<close>

record linear =
  in_features :: nat
  out_features :: nat
  weight :: "matrix param"
  bias :: "vec param"

text \<open>
  The module's two layers (\<^verbatim>\<open>self.hidden1\<close>, \<^verbatim>\<open>self.output\<close>; the latter is
  \<open>output_layer\<close> here, \<open>output\<close> being reserved) and its training-mode flag.
\<close>

record MLP =
  hidden1 :: linear
  output_layer :: linear
  training :: bool

definition linear_wf :: "linear \<Rightarrow> bool" where
  "linear_wf L \<longleftrightarrow>
     length (data (weight L)) = out_features L
     \<and> list_all (\<lambda>row. length row = in_features L) (data (weight L))
     \<and> length (data (bias L)) = out_features L"

definition mlp_wf :: "MLP \<Rightarrow> bool" where
  "mlp_wf M \<longleftrightarrow>
     linear_wf (hidden1 M) \<and> linear_wf (output_layer M)
     \<and> in_features (output_layer M) = out_features (hidden1 M)"

text \<open>
  \<^verbatim>\<open>MLP.__init__(num_input, hidden1_size, num_classes)\<close>: two linear layers, the second
  fed by the first.  PyTorch draws the initial tensors at random; they are parameters
  here.  A fresh module is in training mode, with no gradients and no optimizer state.
\<close>

definition fresh :: "'a \<Rightarrow> 'a param" where
  "fresh v = \<lparr>data = v, grad = None, momentum_buffer = None\<rparr>"

definition MLP_init :: "nat \<Rightarrow> nat \<Rightarrow> nat \<Rightarrow> matrix \<Rightarrow> vec \<Rightarrow> matrix \<Rightarrow> vec \<Rightarrow> MLP" where
  "MLP_init num_input hidden1_size num_classes W1 b1 W2 b2 =
     \<lparr>hidden1 = \<lparr>in_features = num_input, out_features = hidden1_size,
                  weight = fresh W1, bias = fresh b1\<rparr>,
      output_layer = \<lparr>in_features = hidden1_size, out_features = num_classes,
                 weight = fresh W2, bias = fresh b2\<rparr>,
      training = True\<rparr>"

definition dot :: "vec \<Rightarrow> vec \<Rightarrow> real" where
  "dot x w = sum_list (map2 (*) x w)"

text \<open>
  Applying a linear layer to a batch \<open>X\<close> of shape \<open>[N, in_features]\<close>: the source's
  comment (line 23) gives \<open>y = w^T x + bias\<close>, that is, output unit \<open>j\<close> is the dot
  product of the input row with row \<open>j\<close> of the weight, plus \<open>bias[j]\<close>.  A row of
  another length cannot be multiplied: PyTorch raises RuntimeError.
\<close>

definition linear_forward :: "linear \<Rightarrow> matrix \<Rightarrow> error + matrix" where
  "linear_forward L X =
     (if \<not> list_all (\<lambda>x. length x = in_features L) X then Inl RuntimeError
      else Inr (map (\<lambda>x. map2 (\<lambda>w b. dot x w + b) (data (weight L)) (data (bias L))) X))"

text \<open>\<^verbatim>\<open>AF.relu\<close>: elementwise \<open>max(0, v)\<close>.\<close>

definition relu :: "matrix \<Rightarrow> matrix" where
  "relu X = map (map (\<lambda>v. max 0 v)) X"

text \<open>
  \<^verbatim>\<open>
  def forward(self, x):
      h1_out = AF.relu(self.hidden1(x))
      output = self.output(h1_out)
      return output
  \<close>
\<close>

definition forward :: "MLP \<Rightarrow> matrix \<Rightarrow> error + matrix" where
  "forward M x =
     (case linear_forward (hidden1 M) x of
        Inl e \<Rightarrow> Inl e
      | Inr pre \<Rightarrow>
          let h1_out = relu pre
          in linear_forward (output_layer M) h1_out)"

subsection \<open>The specification's formula for the forward pass\<close>

text \<open>
  The specification writes \<open>h = ReLU(x @ W1 + b1)\<close>, \<open>out = h @ W2 + b2\<close> with \<open>W1\<close> of
  shape \<open>input_dim \<times> hidden_dim\<close> and \<open>W2\<close> of shape \<open>hidden_dim \<times> num_classes\<close>.
  \<open>matmul X W n\<close> is the matrix product \<open>X @ W\<close> for a \<open>W\<close> with \<open>n\<close> columns, and
  \<open>add_bias\<close> adds a vector to every row.
\<close>

definition matmul :: "matrix \<Rightarrow> matrix \<Rightarrow> nat \<Rightarrow> matrix" where
  "matmul X W n =
     map (\<lambda>x. map (\<lambda>j. sum_list (map (\<lambda>i. x ! i * W ! i ! j) [0..<length x])) [0..<n]) X"

definition add_bias :: "matrix \<Rightarrow> vec \<Rightarrow> matrix" where
  "add_bias Y b = map (\<lambda>row. map2 (+) row b) Y"

definition spec_forward :: "matrix \<Rightarrow> vec \<Rightarrow> matrix \<Rightarrow> vec \<Rightarrow> matrix \<Rightarrow> matrix" where
  "spec_forward W1 b1 W2 b2 X =
     (let h = relu (add_bias (matmul X W1 (length b1)) b1);
          out = add_bias (matmul h W2 (length b2)) b2
      in out)"

text \<open>
  The stored weight is the transpose of the specification's: \<open>mtranspose n W\<close> is the
  transpose of a matrix \<open>W\<close> with \<open>n\<close> columns.
\<close>

definition mtranspose :: "nat \<Rightarrow> matrix \<Rightarrow> matrix" where
  "mtranspose n W = map (\<lambda>i. map (\<lambda>row. row ! i) W) [0..<n]"

section \<open>The loss (line 270)\<close>

text \<open>
  \<^verbatim>\<open>loss_func = nn.CrossEntropyLoss(weight=weights)\<close>.  The loss class is PyTorch's; the
  source's comment (line 37) records that it "combines both LogSoftMax() and
  NLLLoss()".  It is modelled from PyTorch's documented definition, with the defaults
  the source leaves in place (reduction \<open>'mean'\<close>, no label smoothing, no ignored
  label in \<open>{0,...,C-1}\<close>).

  Log-softmax of a score row, computed the stable way (the row maximum is subtracted
  before exponentiating).
\<close>

definition log_softmax :: "vec \<Rightarrow> vec" where
  "log_softmax x =
     (if x = [] then []
      else let m = fold max x (hd x)
           in map (\<lambda>v. (v - m) - ln (sum_list (map (\<lambda>u. exp (u - m)) x))) x)"

text \<open>
  The weighted negative log-likelihood with reduction \<open>'mean'\<close>: sample \<open>i\<close> with
  label \<open>y\<close> contributes \<open>- weight[y] * input[i][y]\<close>, and the sum is divided by the
  sum of the weights \<open>weight[y]\<close> of the batch's labels (PyTorch's weighted mean), a
  floating-point division.
\<close>

definition nll_loss :: "vec \<Rightarrow> matrix \<Rightarrow> nat list \<Rightarrow> fl" where
  "nll_loss w input target =
     fdiv (sum_list (map2 (\<lambda>row y. - (w ! y) * (row ! y)) input target))
          (sum_list (map (\<lambda>y. w ! y) target))"

text \<open>
  The shape checks PyTorch makes first: the batch sizes of scores and labels agree
  (ValueError), the weight vector has one entry per class (RuntimeError), every label
  is a class index (IndexError).
\<close>

definition CrossEntropyLoss :: "vec \<Rightarrow> matrix \<Rightarrow> nat list \<Rightarrow> error + fl" where
  "CrossEntropyLoss w input target =
     (if length input \<noteq> length target then Inl ValueError
      else if \<not> list_all (\<lambda>row. length row = length w) input then Inl RuntimeError
      else if \<not> list_all (\<lambda>y. y < length w) target then Inl IndexError
      else Inr (nll_loss w (map log_softmax input) target))"

definition loss_func :: "vec \<Rightarrow> matrix \<Rightarrow> nat list \<Rightarrow> error + fl" where
  "loss_func weights = CrossEntropyLoss weights"

subsection \<open>The specification's formula for the loss\<close>

text \<open>
  \<open>loss = mean_i( w[labels[i]] * (-log( exp(scores[i, labels[i]]) / sum_j exp(scores[i,j]) )) )\<close>,
  the arithmetic mean over the \<open>N\<close> samples.
\<close>

definition sample_loss :: "vec \<Rightarrow> vec \<Rightarrow> nat \<Rightarrow> real" where
  "sample_loss w row y = w ! y * (- ln (exp (row ! y) / sum_list (map exp row)))"

definition spec_loss :: "vec \<Rightarrow> matrix \<Rightarrow> nat list \<Rightarrow> real" where
  "spec_loss w scores labels =
     sum_list (map2 (sample_loss w) scores labels) / real (length scores)"

section \<open>The optimizer (lines 275-280)\<close>

text \<open>\<^verbatim>\<open>alpha = 0.008\<close> (learning rate), \<^verbatim>\<open>gamma = 0.5\<close> (momentum).\<close>

definition alpha :: real where "alpha = 0.008"
definition gamma :: real where "gamma = 0.5"

text \<open>
  \<^verbatim>\<open>MLP_optimizer = optim.SGD(MLP_model.parameters(), lr=alpha, momentum=gamma)\<close>.  The
  optimizer's hyper-parameters; its per-parameter state is in the parameter slots.
\<close>

record SGD =
  lr :: real
  momentum :: real

definition MLP_optimizer :: SGD where
  "MLP_optimizer = \<lparr>lr = alpha, momentum = gamma\<rparr>"

text \<open>Elementwise tensor arithmetic, on vectors and on matrices.\<close>

definition vscale :: "real \<Rightarrow> vec \<Rightarrow> vec" where
  "vscale a x = map (\<lambda>v. a * v) x"

definition vadd :: "vec \<Rightarrow> vec \<Rightarrow> vec" where
  "vadd x y = map2 (+) x y"

definition mscale :: "real \<Rightarrow> matrix \<Rightarrow> matrix" where
  "mscale a X = map (vscale a) X"

definition madd :: "matrix \<Rightarrow> matrix \<Rightarrow> matrix" where
  "madd X Y = map2 vadd X Y"

text \<open>
  Modelled from the spec: \<^verbatim>\<open>optim.SGD\<close> is PyTorch library code, not part of the
  repository's source.  The specification gives the rule \<open>v \<leftarrow> \<gamma> * v + gradient(\<theta>)\<close>,
  \<open>\<theta> \<leftarrow> \<theta> - \<alpha> * v\<close> with the velocity \<open>v\<close> initialised to 0.  The model states it
  the way PyTorch documents its algorithm (no weight decay, no dampening, no Nesterov:
  the defaults the source leaves in place): a parameter without a gradient is skipped;
  the velocity, PyTorch's momentum buffer, is absent until the first step, where it
  starts as the first gradient, and is afterwards \<^verbatim>\<open>buf.mul_(momentum).add_(grad)\<close>;
  then \<^verbatim>\<open>p.add_(buf, alpha=-lr)\<close>.  \<open>scale\<close> and \<open>add\<close> are the elementwise operations
  of the parameter's shape.
\<close>

definition sgd_param ::
  "(real \<Rightarrow> 'a \<Rightarrow> 'a) \<Rightarrow> ('a \<Rightarrow> 'a \<Rightarrow> 'a) \<Rightarrow> SGD \<Rightarrow> 'a param \<Rightarrow> 'a param" where
  "sgd_param scale add opt p =
     (case grad p of
        None \<Rightarrow> p
      | Some d_p \<Rightarrow>
          if momentum opt \<noteq> 0 then
            let buf = (case momentum_buffer p of
                         None \<Rightarrow> d_p
                       | Some b \<Rightarrow> add (scale (momentum opt) b) d_p)
            in p\<lparr>data := add (data p) (scale (- lr opt) buf), momentum_buffer := Some buf\<rparr>
          else p\<lparr>data := add (data p) (scale (- lr opt) d_p)\<rparr>)"

text \<open>\<^verbatim>\<open>optimizer.step()\<close>: every parameter of the model, each on its own.\<close>

definition step :: "SGD \<Rightarrow> MLP \<Rightarrow> MLP" where
  "step opt M =
     M\<lparr>hidden1 := (hidden1 M)
          \<lparr>weight := sgd_param mscale madd opt (weight (hidden1 M)),
           bias := sgd_param vscale vadd opt (bias (hidden1 M))\<rparr>,
       output_layer := (output_layer M)
          \<lparr>weight := sgd_param mscale madd opt (weight (output_layer M)),
           bias := sgd_param vscale vadd opt (bias (output_layer M))\<rparr>\<rparr>"

text \<open>\<^verbatim>\<open>optimizer.zero_grad()\<close>: the gradient of every parameter is reset (to None).\<close>

definition zero_grad :: "MLP \<Rightarrow> MLP" where
  "zero_grad M =
     M\<lparr>hidden1 := (hidden1 M)
          \<lparr>weight := (weight (hidden1 M))\<lparr>grad := None\<rparr>,
           bias := (bias (hidden1 M))\<lparr>grad := None\<rparr>\<rparr>,
       output_layer := (output_layer M)
          \<lparr>weight := (weight (output_layer M))\<lparr>grad := None\<rparr>,
           bias := (bias (output_layer M))\<lparr>grad := None\<rparr>\<rparr>\<rparr>"

subsection \<open>The specification's update rule\<close>

text \<open>
  \<open>v \<leftarrow> \<gamma> * v + gradient(\<theta>)\<close>, then \<open>\<theta> \<leftarrow> \<theta> - \<alpha> * v\<close>, for one entry of a parameter
  tensor.
\<close>

definition spec_velocity :: "real \<Rightarrow> real \<Rightarrow> real" where
  "spec_velocity v g = gamma * v + g"

definition spec_theta :: "real \<Rightarrow> real \<Rightarrow> real" where
  "spec_theta \<theta> v = \<theta> - alpha * v"

section \<open>The backward pass\<close>

text \<open>
  \<^verbatim>\<open>loss.backward()\<close>: PyTorch's Autograd computes the gradient of the batch loss with
  respect to each parameter and adds it to what that parameter's \<^verbatim>\<open>.grad\<close> holds (it
  sets \<^verbatim>\<open>.grad\<close> when there is none).  The gradients themselves are Autograd's work,
  not the program's: they are a parameter of the model, a function of the classifier
  and the batch giving the four gradients (hidden weight, hidden bias, output weight,
  output bias).
\<close>

type_synonym grads = "matrix \<times> vec \<times> matrix \<times> vec"
type_synonym autograd = "MLP \<Rightarrow> matrix \<Rightarrow> nat list \<Rightarrow> grads"

definition accumulate :: "('a \<Rightarrow> 'a \<Rightarrow> 'a) \<Rightarrow> 'a \<Rightarrow> 'a param \<Rightarrow> 'a param" where
  "accumulate add g p =
     p\<lparr>grad := Some (case grad p of None \<Rightarrow> g | Some old \<Rightarrow> add old g)\<rparr>"

definition backward :: "autograd \<Rightarrow> MLP \<Rightarrow> matrix \<Rightarrow> nat list \<Rightarrow> MLP" where
  "backward G M features labels =
     (case G M features labels of
        (gW1, gb1, gW2, gb2) \<Rightarrow>
          M\<lparr>hidden1 := (hidden1 M)
               \<lparr>weight := accumulate madd gW1 (weight (hidden1 M)),
                bias := accumulate vadd gb1 (bias (hidden1 M))\<rparr>,
            output_layer := (output_layer M)
               \<lparr>weight := accumulate madd gW2 (weight (output_layer M)),
                bias := accumulate vadd gb2 (bias (output_layer M))\<rparr>\<rparr>)"

section \<open>The training loop (train\_ANN\_model, lines 67-102)\<close>

text \<open>
  The operations of one batch, named so that their order can be observed: the loop
  state carries, beside the model and the list of losses, the sequence of operations
  performed so far.
\<close>

datatype event = ZeroGrad | Forward | Loss | Backward | Step

type_synonym batch = "matrix \<times> nat list"
type_synonym loss_fn = "matrix \<Rightarrow> nat list \<Rightarrow> error + fl"

record train_state =
  model :: MLP
  train_losses :: "fl list"
  events :: "event list"

text \<open>
  The body of the inner loop (moving tensors to the device and printing change no
  value and are left out):
  \<^verbatim>\<open>
  optimizer.zero_grad()
  output = ANN_model(features)
  loss = loss_func(output, labels)
  train_losses.append(loss.item())
  loss.backward()
  optimizer.step()
  \<close>
  An exception in the forward pass or in the loss ends the run.
\<close>

definition train_batch ::
  "autograd \<Rightarrow> loss_fn \<Rightarrow> SGD \<Rightarrow> train_state \<Rightarrow> batch \<Rightarrow> error + train_state" where
  "train_batch G loss_fn optimizer s b =
     (case b of (features, labels) \<Rightarrow>
        let s1 = s\<lparr>model := zero_grad (model s), events := events s @ [ZeroGrad]\<rparr>
        in case forward (model s1) features of
             Inl e \<Rightarrow> Inl e
           | Inr out \<Rightarrow>
               let s2 = s1\<lparr>events := events s1 @ [Forward]\<rparr>
               in case loss_fn out labels of
                    Inl e \<Rightarrow> Inl e
                  | Inr loss \<Rightarrow>
                      let s3 = s2\<lparr>events := events s2 @ [Loss]\<rparr>;
                          s4 = s3\<lparr>train_losses := train_losses s3 @ [loss]\<rparr>;
                          s5 = s4\<lparr>model := backward G (model s4) features labels,
                                  events := events s4 @ [Backward]\<rparr>;
                          s6 = s5\<lparr>model := step optimizer (model s5),
                                  events := events s5 @ [Step]\<rparr>
                      in Inr s6)"

text \<open>\<^verbatim>\<open>for batch_cnt, (features, labels) in enumerate(training_data)\<close>.\<close>

fun train_batches ::
  "autograd \<Rightarrow> loss_fn \<Rightarrow> SGD \<Rightarrow> train_state \<Rightarrow> batch list \<Rightarrow> error + train_state" where
  "train_batches G loss_fn optimizer s [] = Inr s"
| "train_batches G loss_fn optimizer s (b # bs) =
     (case train_batch G loss_fn optimizer s b of
        Inl e \<Rightarrow> Inl e
      | Inr s' \<Rightarrow> train_batches G loss_fn optimizer s' bs)"

text \<open>
  \<^verbatim>\<open>for epoch_cnt in range(num_epochs)\<close>.  Every epoch iterates the data loader anew;
  with shuffling each iteration yields its own sequence of batches, so the training
  data is a function from the epoch to the batches of that epoch.
\<close>

fun train_epochs ::
  "autograd \<Rightarrow> loss_fn \<Rightarrow> SGD \<Rightarrow> (nat \<Rightarrow> batch list) \<Rightarrow> nat \<Rightarrow> nat \<Rightarrow> train_state
     \<Rightarrow> error + train_state" where
  "train_epochs G loss_fn optimizer training_data epoch_cnt 0 s = Inr s"
| "train_epochs G loss_fn optimizer training_data epoch_cnt (Suc n) s =
     (case train_batches G loss_fn optimizer s (training_data epoch_cnt) of
        Inl e \<Rightarrow> Inl e
      | Inr s' \<Rightarrow> train_epochs G loss_fn optimizer training_data (Suc epoch_cnt) n s')"

text \<open>
  \<^verbatim>\<open>train_ANN_model(num_epochs, training_data, device, CUDA_enabled, ANN_model, loss_func, optimizer)\<close>:
  the model is put in training mode, the loss list starts empty, and
  \<open>range(num_epochs)\<close> is empty for a negative count.  The function returns the loss
  list (and a time measurement, not modelled); the final state also holds the trained
  model, which Python mutates in place.
\<close>

definition train_ANN_model ::
  "autograd \<Rightarrow> int \<Rightarrow> (nat \<Rightarrow> batch list) \<Rightarrow> MLP \<Rightarrow> loss_fn \<Rightarrow> SGD \<Rightarrow> error + train_state" where
  "train_ANN_model G num_epochs training_data ANN_model loss_fn optimizer =
     train_epochs G loss_fn optimizer training_data 0 (nat num_epochs)
       \<lparr>model = ANN_model\<lparr>training := True\<rparr>, train_losses = [], events = []\<rparr>"

section \<open>The evaluation loop (test\_ANN\_model, lines 105-130)\<close>

text \<open>
  \<^verbatim>\<open>_, predictions = torch.max(output, 1)\<close>: for each row the index of its first
  maximum; a row without entries has none (IndexError).
\<close>

definition argmax :: "vec \<Rightarrow> error + nat" where
  "argmax row =
     (if row = [] then Inl IndexError
      else let m = fold max row (hd row)
           in Inr (length (takeWhile (\<lambda>v. v \<noteq> m) row)))"

fun predict :: "matrix \<Rightarrow> error + nat list" where
  "predict [] = Inr []"
| "predict (row # rows) =
     (case argmax row of
        Inl e \<Rightarrow> Inl e
      | Inr c \<Rightarrow> (case predict rows of Inl e \<Rightarrow> Inl e | Inr cs \<Rightarrow> Inr (c # cs)))"

text \<open>
  \<^verbatim>\<open>(predictions == labels).sum().item()\<close>: the number of positions where the two
  agree; tensors of different lengths are compared only when one of them has a single
  entry (broadcasting), otherwise PyTorch raises RuntimeError.
\<close>

definition count_correct :: "nat list \<Rightarrow> nat list \<Rightarrow> error + nat" where
  "count_correct predictions labels =
     (if length predictions = length labels
        then Inr (length (filter (\<lambda>(p, l). p = l) (zip predictions labels)))
      else if length predictions = 1 then Inr (count_list labels (hd predictions))
      else if length labels = 1 then Inr (count_list predictions (hd labels))
      else Inl RuntimeError)"

text \<open>
  The loop body, under \<^verbatim>\<open>torch.no_grad()\<close>:
  \<^verbatim>\<open>
  output = ANN_model(features)
  _, predictions = torch.max(output, 1)
  predicted_labels.extend(predictions.cpu().numpy())
  num_samples = labels.shape[0]
  true_labels.extend(labels.cpu().numpy())
  num_correct = (predictions == labels).sum().item()
  accuracy = num_correct/num_samples
  \<close>
  The last line divides two Python numbers: ZeroDivisionError for a batch without
  labels.
\<close>

fun test_batches ::
  "MLP \<Rightarrow> batch list \<Rightarrow> nat list \<times> nat list \<Rightarrow> error + (nat list \<times> nat list)" where
  "test_batches ANN_model [] acc = Inr acc"
| "test_batches ANN_model ((features, labels) # bs) (predicted_labels, true_labels) =
     (case forward ANN_model features of
        Inl e \<Rightarrow> Inl e
      | Inr out \<Rightarrow>
          (case predict out of
             Inl e \<Rightarrow> Inl e
           | Inr predictions \<Rightarrow>
               (case count_correct predictions labels of
                  Inl e \<Rightarrow> Inl e
                | Inr num_correct \<Rightarrow>
                    if length labels = 0 then Inl ZeroDivisionError
                    else test_batches ANN_model bs
                           (predicted_labels @ predictions, true_labels @ labels))))"

text \<open>
  \<^verbatim>\<open>test_ANN_model(device, CUDA_enabled, ANN_model, testing_data)\<close>: the model is put
  in evaluation mode and the batches are run in order.  After the loop the function
  prints \<open>num_samples\<close>, a variable the loop body assigns: UnboundLocalError when there
  was no batch.  The result is the model as the call leaves it, and what the call
  returns or raises.
\<close>

definition test_ANN_model ::
  "MLP \<Rightarrow> batch list \<Rightarrow> MLP \<times> (error + (nat list \<times> nat list))" where
  "test_ANN_model ANN_model testing_data =
     (let M = ANN_model\<lparr>training := False\<rparr>
      in (M, case test_batches M testing_data ([], []) of
               Inl e \<Rightarrow> Inl e
             | Inr (predicted_labels, true_labels) \<Rightarrow>
                 if testing_data = [] then Inl UnboundLocalError
                 else Inr (predicted_labels, true_labels)))"

section \<open>Precision (line 309)\<close>

text \<open>
  Modelled from the spec: \<^verbatim>\<open>sklearn.metrics.precision_score\<close> is library code, not part
  of the repository's source.  The specification gives precision as \<open>TP / (TP + FP)\<close>
  for class 1 with a defined fallback when the denominator is zero; the source passes
  the fallback \<^verbatim>\<open>zero_division=1\<close>.  The library refuses label sequences of different
  lengths, targets with more than two distinct labels, and two distinct labels without
  the positive one (ValueError).
\<close>

definition precision_score :: "nat list \<Rightarrow> nat list \<Rightarrow> real \<Rightarrow> error + real" where
  "precision_score y_true y_pred zero_division =
     (let present = remdups (y_true @ y_pred);
          tp = length (filter (\<lambda>(t, p). p = 1 \<and> t = 1) (zip y_true y_pred));
          fp = length (filter (\<lambda>(t, p). p = 1 \<and> t \<noteq> 1) (zip y_true y_pred))
      in if length y_true \<noteq> length y_pred then Inl ValueError
         else if 2 < length present then Inl ValueError
         else if length present = 2 \<and> 1 \<notin> set present then Inl ValueError
         else if tp + fp = 0 then Inr zero_division
         else Inr (real tp / real (tp + fp)))"

text \<open>\<^verbatim>\<open>precision = precision_score(true_labels, predicted_labels, zero_division=1)\<close>.\<close>

definition precision :: "nat list \<Rightarrow> nat list \<Rightarrow> error + real" where
  "precision true_labels predicted_labels = precision_score true_labels predicted_labels 1"

section \<open>Shapes\<close>

text \<open>
  The shape discipline PyTorch maintains: a parameter's gradient and momentum buffer
  have the parameter's shape, the hidden layer feeds the output layer, and Autograd
  returns gradients of the parameters' shapes.  A batch fits a classifier when its
  feature rows have the input dimension, it has one label per row, and every label is
  a class index.
\<close>

definition shaped :: "nat \<Rightarrow> nat \<Rightarrow> matrix \<Rightarrow> bool" where
  "shaped r c A \<longleftrightarrow> length A = r \<and> list_all (\<lambda>row. length row = c) A"

definition param_ok :: "('a \<Rightarrow> bool) \<Rightarrow> 'a param \<Rightarrow> bool" where
  "param_ok ok p \<longleftrightarrow>
     ok (data p)
     \<and> (case grad p of None \<Rightarrow> True | Some g \<Rightarrow> ok g)
     \<and> (case momentum_buffer p of None \<Rightarrow> True | Some b \<Rightarrow> ok b)"

definition linear_inv :: "linear \<Rightarrow> bool" where
  "linear_inv L \<longleftrightarrow>
     param_ok (shaped (out_features L) (in_features L)) (weight L)
     \<and> param_ok (\<lambda>v. length v = out_features L) (bias L)"

definition mlp_inv :: "MLP \<Rightarrow> bool" where
  "mlp_inv M \<longleftrightarrow>
     linear_inv (hidden1 M) \<and> linear_inv (output_layer M)
     \<and> in_features (output_layer M) = out_features (hidden1 M)"

definition grads_ok :: "MLP \<Rightarrow> grads \<Rightarrow> bool" where
  "grads_ok M g \<longleftrightarrow>
     (case g of (gW1, gb1, gW2, gb2) \<Rightarrow>
        shaped (out_features (hidden1 M)) (in_features (hidden1 M)) gW1
        \<and> length gb1 = out_features (hidden1 M)
        \<and> shaped (out_features (output_layer M)) (in_features (output_layer M)) gW2
        \<and> length gb2 = out_features (output_layer M))"

definition autograd_ok :: "autograd \<Rightarrow> bool" where
  "autograd_ok G \<longleftrightarrow> (\<forall>M X y. mlp_inv M \<longrightarrow> grads_ok M (G M X y))"

definition batch_ok :: "nat \<Rightarrow> nat \<Rightarrow> batch \<Rightarrow> bool" where
  "batch_ok input_dim num_classes b \<longleftrightarrow>
     (case b of (features, labels) \<Rightarrow>
        list_all (\<lambda>x. length x = input_dim) features
        \<and> length labels = length features
        \<and> list_all (\<lambda>y. y < num_classes) labels)"

text \<open>The gradients the four parameters hold.\<close>

definition grads_of :: "MLP \<Rightarrow> matrix option \<times> vec option \<times> matrix option \<times> vec option" where
  "grads_of M =
     (grad (weight (hidden1 M)), grad (bias (hidden1 M)),
      grad (weight (output_layer M)), grad (bias (output_layer M)))"

text \<open>
  What stays true of the loop state during training: the model keeps its shapes, its
  input dimension and its number of classes.
\<close>

definition run_inv :: "nat \<Rightarrow> nat \<Rightarrow> train_state \<Rightarrow> bool" where
  "run_inv input_dim num_classes s \<longleftrightarrow>
     mlp_inv (model s) \<and> in_features (hidden1 (model s)) = input_dim
     \<and> out_features (output_layer (model s)) = num_classes"

subsection \<open>The specification's order of the operations of one batch\<close>

text \<open>"forward pass, loss, reset gradients, backward pass, optimizer step".\<close>

definition spec_batch_order :: "event list" where
  "spec_batch_order = [Forward, Loss, ZeroGrad, Backward, Step]"

subsection \<open>The run as a sequence of batches\<close>

text \<open>
  The batches of a run in processing order: those of epoch 0, then those of epoch 1,
  and so on.
\<close>

definition batches_in_order :: "(nat \<Rightarrow> batch list) \<Rightarrow> nat \<Rightarrow> batch list" where
  "batches_in_order training_data n = concat (map training_data [0..<n])"

text \<open>
  The model after a sequence of batches, each one taking it through the gradient
  reset, then the backward pass, then the optimizer step.
\<close>

definition model_after :: "autograd \<Rightarrow> SGD \<Rightarrow> MLP \<Rightarrow> batch list \<Rightarrow> MLP" where
  "model_after G optimizer M bs =
     fold (\<lambda>b M'. step optimizer (backward G (zero_grad M') (fst b) (snd b))) bs M"

section \<open>Properties of the class weights\<close>

lemma fold_max_ge_init: "(a::nat) \<le> fold max ys a"
proof (induction ys arbitrary: a)
  case Nil
  show ?case by simp
next
  case (Cons y ys)
  have "a \<le> max y a" by simp
  also have "\<dots> \<le> fold max ys (max y a)" by (rule Cons.IH)
  finally show ?case by simp
qed

lemma fold_max_ge_elem: "(y::nat) \<in> set ys \<Longrightarrow> y \<le> fold max ys a"
proof (induction ys arbitrary: a)
  case Nil
  then show ?case by simp
next
  case (Cons z zs)
  show ?case
  proof (cases "y = z")
    case True
    have "y \<le> max z a" using True by simp
    also have "\<dots> \<le> fold max zs (max z a)" by (rule fold_max_ge_init)
    finally show ?thesis by simp
  next
    case False
    with Cons.prems have "y \<in> set zs" by simp
    then show ?thesis using Cons.IH by simp
  qed
qed

lemma count_list_pos_mem: "0 < count_list ys c \<Longrightarrow> c \<in> set ys"
  by (induction ys) (auto split: if_splits)

lemma length_np_bincount:
  "ys \<noteq> [] \<Longrightarrow> length (np_bincount ys) = Suc (fold max ys 0)"
  by (simp add: np_bincount_def)

lemma nth_np_bincount_less:
  "c < length (np_bincount ys) \<Longrightarrow> np_bincount ys ! c = count_list ys c"
  by (cases "ys = []") (simp_all add: np_bincount_def del: upt_Suc)

lemma nth_np_bincount:
  "c \<in> set ys \<Longrightarrow> np_bincount ys ! c = count_list ys c"
proof -
  assume mem: "c \<in> set ys"
  then have ne: "ys \<noteq> []" by auto
  have "c < Suc (fold max ys 0)" using fold_max_ge_elem [OF mem, of 0] by simp
  then show ?thesis using ne by (simp add: np_bincount_def del: upt_Suc)
qed

lemma fold_max_le_bound: "\<forall>y\<in>set ys. y \<le> m \<Longrightarrow> (a::nat) \<le> m \<Longrightarrow> fold max ys a \<le> m"
  by (induction ys arbitrary: a) simp_all

lemma count_list_zero_notin: "count_list ys c = 0 \<Longrightarrow> c \<notin> set ys"
  by (induction ys) (auto split: if_splits)

text \<open>
  C4.  The class weights are \<open>w[c] = N_total / (2 * count(label = c))\<close>: whenever both
  classes occur among the training labels the computation returns, without a warning,
  exactly these two quotients; on the labels \<open>[0,0,0,1]\<close> it returns
  \<open>w0 = 4/6\<close> (which is 2/3, within 0.001 of 0.667) and \<open>w1 = 4/2 = 2\<close>.
\<close>

theorem class_weights_formula:
  "(0 < count_list ys 0 \<and> 0 < count_list ys 1 \<longrightarrow>
      class_weights ys =
        Inr ((Fin (real (length ys) / (2 * real (count_list ys 0))),
              Fin (real (length ys) / (2 * real (count_list ys 1)))), []))
   \<and> class_weights [0, 0, 0, 1] = Inr ((Fin (4 / 6), Fin (4 / 2)), [])
   \<and> \<bar>4 / 6 - 0.667\<bar> < (0.001::real) \<and> 4 / 2 = (2::real)"
proof -
  have general: "class_weights ys =
        Inr ((Fin (real (length ys) / (2 * real (count_list ys 0))),
              Fin (real (length ys) / (2 * real (count_list ys 1)))), [])"
    if c0: "0 < count_list ys 0" and c1: "0 < count_list ys 1"
  proof -
    have m0: "0 \<in> set ys" and m1: "1 \<in> set ys"
      using c0 c1 by (auto intro: count_list_pos_mem)
    have ne: "ys \<noteq> []" using m0 by auto
    have "1 \<le> fold max ys 0" using fold_max_ge_elem [OF m1, of 0] by simp
    then have len: "2 \<le> length (np_bincount ys)"
      using length_np_bincount [OF ne] by simp
    have n0: "np_bincount ys ! 0 = count_list ys 0" by (rule nth_np_bincount [OF m0])
    have n1: "np_bincount ys ! 1 = count_list ys 1" by (rule nth_np_bincount [OF m1])
    have nonnil: "np_bincount ys \<noteq> []" using len by auto
    show ?thesis
      using len nonnil n0 n1 c0 c1
      by (simp add: class_weights_def Let_def np_true_divide_def fdiv_def)
  qed
  have concrete: "class_weights [0, 0, 0, 1] = Inr ((Fin (4 / 6), Fin (4 / 2)), [])"
    by (simp add: class_weights_def Let_def np_true_divide_def fdiv_def np_bincount_def)
  have approx: "\<bar>4 / 6 - 0.667\<bar> < (0.001::real)" by simp
  show ?thesis using general concrete approx by simp
qed

theorem class_weights_formula_witness:
  "0 < count_list [1, 0, 1::nat] 0 \<and> 0 < count_list [1, 0, 1::nat] 1
   \<and> class_weights [1, 0, 1] = Inr ((Fin (3 / 2), Fin (3 / 4)), [])"
proof -
  have h: "0 < count_list [1, 0, 1::nat] 0 \<and> 0 < count_list [1, 0, 1::nat] 1" by simp
  show ?thesis using h class_weights_formula [of "[1, 0, 1]"] by simp
qed

lemma class_weights_general:
  assumes ne: "ys \<noteq> []" and len: "2 \<le> length (np_bincount ys)"
  shows "class_weights ys =
           Inr ((fdiv (real (length ys)) (real (2 * count_list ys 0)),
                 fdiv (real (length ys)) (real (2 * count_list ys 1))),
                (if count_list ys 0 = 0 then [RuntimeWarning] else [])
                @ (if count_list ys 1 = 0 then [RuntimeWarning] else []))"
proof -
  have nonnil: "np_bincount ys \<noteq> []" using len by auto
  have n0: "np_bincount ys ! 0 = count_list ys 0"
    using nth_np_bincount_less [of 0 ys] nonnil by simp
  have n1: "np_bincount ys ! 1 = count_list ys 1"
    using nth_np_bincount_less [of 1 ys] len by simp
  show ?thesis
    using len nonnil n0 n1
    by (simp add: class_weights_def Let_def np_true_divide_def)
qed

lemma class_weights_short:
  "length (np_bincount ys) \<le> 1 \<Longrightarrow> class_weights ys = Inl IndexError"
  by (simp add: class_weights_def Let_def split: prod.splits)

lemma class_weights_fatal_or_warned:
  assumes absent: "count_list ys 0 = 0 \<or> count_list ys 1 = 0"
  shows "class_weights ys = Inl IndexError
         \<or> (\<exists>w0 w1 ws. class_weights ys = Inr ((w0, w1), ws) \<and> RuntimeWarning \<in> set ws
               \<and> (count_list ys 0 = 0 \<longrightarrow> w0 = PosInf)
               \<and> (count_list ys 1 = 0 \<longrightarrow> w1 = PosInf))"
proof (cases "length (np_bincount ys) \<le> 1")
  case True
  then show ?thesis by (simp add: class_weights_short)
next
  case False
  then have len: "2 \<le> length (np_bincount ys)" by simp
  then have ne: "ys \<noteq> []" by (auto simp add: np_bincount_def)
  then have pos: "0 < real (length ys)" by simp
  show ?thesis
    using absent pos by (auto simp add: class_weights_general [OF ne len] fdiv_def)
qed

lemma nll_loss_unread:
  assumes "c \<notin> set labels"
  shows "nll_loss (w[c := x]) input labels = nll_loss w input labels"
proof -
  have a: "map2 (\<lambda>row y. - (w[c := x] ! y) * (row ! y)) input labels
         = map2 (\<lambda>row y. - (w ! y) * (row ! y)) input labels"
  proof (intro map_cong refl)
    fix p assume "p \<in> set (zip input labels)"
    then have "(fst p, snd p) \<in> set (zip input labels)" by simp
    then have "snd p \<in> set labels" by (rule set_zip_rightD)
    then have "snd p \<noteq> c" using assms by auto
    then have "w[c := x] ! snd p = w ! snd p" by simp
    then show "(case p of (row, y) \<Rightarrow> - (w[c := x] ! y) * (row ! y))
             = (case p of (row, y) \<Rightarrow> - (w ! y) * (row ! y))"
      by (cases p) simp
  qed
  have b: "map (\<lambda>y. w[c := x] ! y) labels = map (\<lambda>y. w ! y) labels"
  proof (intro map_cong refl)
    fix y assume "y \<in> set labels"
    then have "y \<noteq> c" using assms by auto
    then show "w[c := x] ! y = w ! y" by simp
  qed
  show ?thesis by (simp only: nll_loss_def a b)
qed

lemma loss_func_unread:
  "c \<notin> set labels \<Longrightarrow> loss_func (w[c := x]) scores labels = loss_func w scores labels"
  by (simp add: loss_func_def CrossEntropyLoss_def nll_loss_unread)

text \<open>
  C8.  When a class is absent from the training labels the class-weight computation
  either fails (IndexError) or is flagged: it returns with numpy's RuntimeWarning for
  the division by zero, the weight of the absent class being inf.  With labels in
  \<open>{0,1}\<close>: an absent class 1 gives the IndexError, an absent class 0 (class 1
  present) gives \<open>w0 = inf\<close>, \<open>w1 = N / (2 * count1)\<close> and the one warning.  The weight
  of an absent class does not travel through training: the loss of a batch that has no
  label of class \<open>c\<close> is the same whatever stands in entry \<open>c\<close> of the weight vector.
\<close>

theorem class_weights_absent_class:
  "(count_list ys 0 = 0 \<or> count_list ys 1 = 0 \<longrightarrow>
      class_weights ys = Inl IndexError
      \<or> (\<exists>w0 w1 ws. class_weights ys = Inr ((w0, w1), ws) \<and> RuntimeWarning \<in> set ws
            \<and> (count_list ys 0 = 0 \<longrightarrow> w0 = PosInf)
            \<and> (count_list ys 1 = 0 \<longrightarrow> w1 = PosInf)))
   \<and> (set ys \<subseteq> {0, 1} \<longrightarrow>
        (count_list ys 1 = 0 \<longrightarrow> class_weights ys = Inl IndexError)
        \<and> (count_list ys 0 = 0 \<and> 0 < count_list ys 1 \<longrightarrow>
             class_weights ys =
               Inr ((PosInf, Fin (real (length ys) / (2 * real (count_list ys 1)))),
                    [RuntimeWarning])))
   \<and> (c \<notin> set labels \<longrightarrow>
        loss_func (w[c := x]) scores labels = loss_func w scores labels)"
proof (intro conjI impI)
  assume "count_list ys 0 = 0 \<or> count_list ys 1 = 0"
  then show "class_weights ys = Inl IndexError
      \<or> (\<exists>w0 w1 ws. class_weights ys = Inr ((w0, w1), ws) \<and> RuntimeWarning \<in> set ws
            \<and> (count_list ys 0 = 0 \<longrightarrow> w0 = PosInf)
            \<and> (count_list ys 1 = 0 \<longrightarrow> w1 = PosInf))"
    by (rule class_weights_fatal_or_warned)
next
  assume sub: "set ys \<subseteq> {0, 1}" and c1: "count_list ys 1 = 0"
  have no1: "1 \<notin> set ys" by (rule count_list_zero_notin [OF c1])
  have "\<forall>y\<in>set ys. y \<le> 0" using sub no1 by auto
  then have "fold max ys 0 \<le> 0" by (rule fold_max_le_bound) simp
  then have "length (np_bincount ys) \<le> 1" by (simp add: np_bincount_def)
  then show "class_weights ys = Inl IndexError" by (rule class_weights_short)
next
  assume sub: "set ys \<subseteq> {0, 1}" and c: "count_list ys 0 = 0 \<and> 0 < count_list ys 1"
  have m1: "1 \<in> set ys" using c by (auto intro: count_list_pos_mem)
  have ne: "ys \<noteq> []" using m1 by auto
  have "1 \<le> fold max ys 0" using fold_max_ge_elem [OF m1, of 0] by simp
  then have len: "2 \<le> length (np_bincount ys)"
    using length_np_bincount [OF ne] by simp
  have pos: "0 < length ys" using ne by simp
  show "class_weights ys =
          Inr ((PosInf, Fin (real (length ys) / (2 * real (count_list ys 1)))), [RuntimeWarning])"
    using c pos by (simp add: class_weights_general [OF ne len] fdiv_def)
next
  assume "c \<notin> set labels"
  then show "loss_func (w[c := x]) scores labels = loss_func w scores labels"
    by (rule loss_func_unread)
qed

theorem class_weights_absent_class_witness:
  "count_list [1, 1, 1::nat] 0 = 0 \<and> set [1, 1, 1::nat] \<subseteq> {0, 1}
   \<and> 0 < count_list [1, 1, 1::nat] 1
   \<and> class_weights [1, 1, 1] = Inr ((PosInf, Fin (3 / 6)), [RuntimeWarning])
   \<and> count_list [0, 0::nat] 1 = 0 \<and> set [0, 0::nat] \<subseteq> {0, 1}
   \<and> class_weights [0, 0] = Inl IndexError
   \<and> 0 \<notin> set [1, 1::nat]
   \<and> loss_func [7, 1 / 2] [[0, 0], [0, 0]] [1, 1] = loss_func [5, 1 / 2] [[0, 0], [0, 0]] [1, 1]"
proof -
  note t1 = class_weights_absent_class [of "[1, 1, 1]" 0 "[1, 1]" "[5, 1 / 2]" 7 "[[0, 0], [0, 0]]"]
  note t2 = class_weights_absent_class [of "[0, 0]" 0 "[1, 1]" "[5, 1 / 2]" 7 "[[0, 0], [0, 0]]"]
  have a: "class_weights [1, 1, 1] = Inr ((PosInf, Fin (3 / 6)), [RuntimeWarning])"
    using t1 by simp
  have b: "class_weights [0, 0] = Inl IndexError"
    using t2 by simp
  have c: "loss_func [7, 1 / 2] [[0, 0], [0, 0]] [1, 1] = loss_func [5, 1 / 2] [[0, 0], [0, 0]] [1, 1]"
    using t1 by simp
  show ?thesis using a b c by simp
qed


section \<open>Properties of the forward pass\<close>

lemma map2_as_nth:
  "length xs = length ys \<Longrightarrow> map2 f xs ys = map (\<lambda>j. f (xs ! j) (ys ! j)) [0..<length xs]"
  by (rule nth_equalityI) simp_all

lemma dot_as_sum:
  "length x = length w \<Longrightarrow> dot x w = sum_list (map (\<lambda>i. x ! i * w ! i) [0..<length x])"
  by (simp add: dot_def map2_as_nth)

lemma nth_mtranspose:
  "i < n \<Longrightarrow> j < length W \<Longrightarrow> mtranspose n W ! i ! j = W ! j ! i"
  by (simp add: mtranspose_def)

lemma linear_row:
  assumes wf: "linear_wf L" and lx: "length x = in_features L"
  shows "map2 (\<lambda>w b. dot x w + b) (data (weight L)) (data (bias L)) =
         map2 (+) (map (\<lambda>j. sum_list (map (\<lambda>i. x ! i * mtranspose (in_features L) (data (weight L)) ! i ! j) [0..<length x]))
                     [0..<length (data (bias L))]) (data (bias L))"
proof (rule nth_equalityI)
  show "length (map2 (\<lambda>w b. dot x w + b) (data (weight L)) (data (bias L))) =
        length (map2 (+) (map (\<lambda>j. sum_list (map (\<lambda>i. x ! i * mtranspose (in_features L) (data (weight L)) ! i ! j) [0..<length x]))
                     [0..<length (data (bias L))]) (data (bias L)))"
    using wf by (simp add: linear_wf_def)
next
  fix j assume "j < length (map2 (\<lambda>w b. dot x w + b) (data (weight L)) (data (bias L)))"
  then have j: "j < out_features L" using wf by (simp add: linear_wf_def)
  have lw: "length (data (weight L)) = out_features L" and lb: "length (data (bias L)) = out_features L"
    using wf by (simp_all add: linear_wf_def)
  have row: "length (data (weight L) ! j) = in_features L"
    using wf j lw by (simp add: linear_wf_def list_all_length)
  have "dot x (data (weight L) ! j) = sum_list (map (\<lambda>i. x ! i * data (weight L) ! j ! i) [0..<length x])"
    using row lx by (simp add: dot_as_sum)
  also have "\<dots> = sum_list (map (\<lambda>i. x ! i * mtranspose (in_features L) (data (weight L)) ! i ! j) [0..<length x])"
    using j lw lx by (intro arg_cong [where f = sum_list] map_cong) (simp_all add: nth_mtranspose)
  finally show "map2 (\<lambda>w b. dot x w + b) (data (weight L)) (data (bias L)) ! j =
     map2 (+) (map (\<lambda>j. sum_list (map (\<lambda>i. x ! i * mtranspose (in_features L) (data (weight L)) ! i ! j) [0..<length x]))
                     [0..<length (data (bias L))]) (data (bias L)) ! j"
    using j lw lb by simp
qed

lemma linear_forward_spec:
  assumes wf: "linear_wf L" and X: "\<forall>x\<in>set X. length x = in_features L"
  shows "linear_forward L X =
     Inr (add_bias (matmul X (mtranspose (in_features L) (data (weight L))) (length (data (bias L)))) (data (bias L)))"
proof -
  have ok: "list_all (\<lambda>x. length x = in_features L) X" using X by (simp add: list_all_iff)
  show ?thesis
    using X by (simp add: linear_forward_def ok add_bias_def matmul_def linear_row [OF wf] cong: map_cong)
qed

lemma linear_forward_shape:
  assumes wf: "linear_wf L" and X: "\<forall>x\<in>set X. length x = in_features L"
  shows "\<exists>Y. linear_forward L X = Inr Y \<and> length Y = length X \<and> (\<forall>r\<in>set Y. length r = out_features L)"
proof -
  have ok: "list_all (\<lambda>x. length x = in_features L) X" using X by (simp add: list_all_iff)
  show ?thesis using wf by (auto simp add: linear_forward_def ok linear_wf_def)
qed

lemma relu_rows: "\<forall>r\<in>set Y. length r = n \<Longrightarrow> \<forall>r\<in>set (relu Y). length r = n"
  by (auto simp add: relu_def)

lemma length_relu: "length (relu Y) = length Y"
  by (simp add: relu_def)

text \<open>
  C1.  For a well-shaped classifier and a batch \<open>X\<close> of shape \<open>[N, input_dim]\<close>, the
  forward pass returns exactly \<open>ReLU(X @ W1 + b1) @ W2 + b2\<close>, where \<open>W1\<close>, \<open>W2\<close>
  are the stored weights transposed, with nothing applied to the result; the result
  has \<open>N\<close> rows of \<open>num_classes\<close> entries.
\<close>

theorem forward_spec:
  assumes wf: "mlp_wf M" and X: "\<forall>x\<in>set X. length x = in_features (hidden1 M)"
  shows "forward M X =
           Inr (spec_forward
                  (mtranspose (in_features (hidden1 M)) (data (weight (hidden1 M))))
                  (data (bias (hidden1 M)))
                  (mtranspose (in_features (output_layer M)) (data (weight (output_layer M))))
                  (data (bias (output_layer M))) X)
         \<and> (\<exists>out. forward M X = Inr out \<and> length out = length X
               \<and> (\<forall>r\<in>set out. length r = out_features (output_layer M)))"
proof -
  have wf1: "linear_wf (hidden1 M)" and wf2: "linear_wf (output_layer M)"
    and io: "in_features (output_layer M) = out_features (hidden1 M)"
    using wf by (simp_all add: mlp_wf_def)
  obtain pre where pre: "linear_forward (hidden1 M) X = Inr pre" and lp: "length pre = length X"
    and rp: "\<forall>r\<in>set pre. length r = out_features (hidden1 M)"
    using linear_forward_shape [OF wf1 X] by blast
  have pre_eq: "pre = add_bias (matmul X (mtranspose (in_features (hidden1 M)) (data (weight (hidden1 M))))
                   (length (data (bias (hidden1 M))))) (data (bias (hidden1 M)))"
    using pre linear_forward_spec [OF wf1 X] by simp
  have rh: "\<forall>r\<in>set (relu pre). length r = in_features (output_layer M)"
    using relu_rows [OF rp] io by simp
  have f: "forward M X = linear_forward (output_layer M) (relu pre)"
    by (simp add: forward_def pre)
  have a: "forward M X =
           Inr (spec_forward
                  (mtranspose (in_features (hidden1 M)) (data (weight (hidden1 M))))
                  (data (bias (hidden1 M)))
                  (mtranspose (in_features (output_layer M)) (data (weight (output_layer M))))
                  (data (bias (output_layer M))) X)"
  proof -
    have "forward M X =
      Inr (add_bias (matmul (relu pre) (mtranspose (in_features (output_layer M)) (data (weight (output_layer M))))
             (length (data (bias (output_layer M))))) (data (bias (output_layer M))))"
      using f linear_forward_spec [OF wf2 rh] by simp
    then show ?thesis
      by (simp add: spec_forward_def Let_def pre_eq)
  qed
  have b: "\<exists>out. forward M X = Inr out \<and> length out = length X
               \<and> (\<forall>r\<in>set out. length r = out_features (output_layer M))"
    using linear_forward_shape [OF wf2 rh] lp by (simp add: f length_relu)
  show ?thesis using a b by simp
qed

theorem forward_spec_witness:
  "mlp_wf (MLP_init 2 1 2 [[1, -1]] [0] [[1], [2]] [0, 1])
   \<and> list_all (\<lambda>x. length x = 2) [[3, 1], [1, 3::real]]
   \<and> forward (MLP_init 2 1 2 [[1, -1]] [0] [[1], [2]] [0, 1]) [[3, 1], [1, 3]]
       = Inr [[2, 5], [0, 1]]"
proof -
  have wf: "mlp_wf (MLP_init 2 1 2 [[1, -1]] [0] [[1], [2]] [0, 1])"
    by (simp add: MLP_init_def mlp_wf_def linear_wf_def fresh_def)
  have X: "\<forall>x\<in>set [[3, 1], [1, 3::real]].
             length x = in_features (hidden1 (MLP_init 2 1 2 [[1, -1]] [0] [[1], [2]] [0, 1]))"
    by (simp add: MLP_init_def)
  have "forward (MLP_init 2 1 2 [[1, -1]] [0] [[1], [2]] [0, 1]) [[3, 1], [1, 3]]
       = Inr [[2, 5], [0, 1]]"
    using forward_spec [OF wf X]
    by (simp add: MLP_init_def fresh_def spec_forward_def matmul_def add_bias_def relu_def
        mtranspose_def Let_def)
  then show ?thesis using wf by simp
qed

section \<open>Properties of the loss\<close>

lemma sum_list_exp_pos: "x \<noteq> [] \<Longrightarrow> 0 < sum_list (map (\<lambda>u. exp (u - m)) (x::real list))"
proof (induction x)
  case Nil
  then show ?case by simp
next
  case (Cons a x)
  show ?case
  proof (cases "x = []")
    case True
    then show ?thesis by simp
  next
    case False
    then have "0 < sum_list (map (\<lambda>u. exp (u - m)) x)" by (rule Cons.IH)
    moreover have "0 < exp (a - m)" by simp
    ultimately show ?thesis by (simp add: add_pos_pos)
  qed
qed

lemma sum_list_exp_shift:
  "sum_list (map (\<lambda>u. exp (u - m)) (x::real list)) = sum_list (map exp x) / exp m"
  by (induction x) (simp_all add: exp_diff add_divide_distrib)

lemma log_softmax_nth:
  assumes y: "y < length row"
  shows "log_softmax row ! y = ln (exp (row ! y) / sum_list (map exp row))"
proof -
  have ne: "row \<noteq> []" using y by auto
  define m where "m = fold max row (hd row)"
  define S where "S = sum_list (map exp row)"
  have Spos: "0 < S"
    using sum_list_exp_pos [OF ne, of 0] by (simp add: S_def)
  have "log_softmax row ! y = (row ! y - m) - ln (S / exp m)"
    using y ne by (simp add: log_softmax_def Let_def m_def S_def sum_list_exp_shift)
  also have "\<dots> = (row ! y - m) - (ln S - m)"
    using Spos by (simp add: ln_div)
  also have "\<dots> = row ! y - ln S" by simp
  also have "\<dots> = ln (exp (row ! y) / S)"
    using Spos by (simp add: ln_div)
  finally show ?thesis by (simp add: S_def)
qed

lemma nll_numerator:
  assumes len: "length scores = length labels"
    and rows: "\<forall>row\<in>set scores. length row = length w"
    and labs: "\<forall>y\<in>set labels. y < length w"
  shows "map2 (\<lambda>row y. - (w ! y) * (row ! y)) (map log_softmax scores) labels
         = map2 (sample_loss w) scores labels"
  using len rows labs
proof (induction scores labels rule: list_induct2)
  case Nil
  show ?case by simp
next
  case (Cons row scores y labels)
  have "y < length row" using Cons.prems by simp
  then have "log_softmax row ! y = ln (exp (row ! y) / sum_list (map exp row))"
    by (rule log_softmax_nth)
  then have "- (w ! y) * (log_softmax row ! y) = sample_loss w row y"
    by (simp add: sample_loss_def)
  moreover have "map2 (\<lambda>row y. - (w ! y) * (row ! y)) (map log_softmax scores) labels
         = map2 (sample_loss w) scores labels"
    using Cons.IH Cons.prems by simp
  ultimately show ?case by simp
qed

lemma loss_func_closed:
  assumes len: "length scores = length labels"
    and rows: "\<forall>row\<in>set scores. length row = length w"
    and labs: "\<forall>y\<in>set labels. y < length w"
    and tot: "sum_list (map (\<lambda>y. w ! y) labels) \<noteq> 0"
  shows "loss_func w scores labels =
           Inr (Fin (sum_list (map2 (sample_loss w) scores labels)
                      / sum_list (map (\<lambda>y. w ! y) labels)))"
proof -
  have r: "list_all (\<lambda>row. length row = length w) scores" using rows by (simp add: list_all_iff)
  have l: "list_all (\<lambda>y. y < length w) labels" using labs by (simp add: list_all_iff)
  have "nll_loss w (map log_softmax scores) labels =
          fdiv (sum_list (map2 (sample_loss w) scores labels))
               (sum_list (map (\<lambda>y. w ! y) labels))"
    by (simp only: nll_loss_def nll_numerator [OF len rows labs])
  then show ?thesis
    using len r l tot by (simp add: loss_func_def CrossEntropyLoss_def fdiv_def)
qed

lemma quotient_eq_iff:
  fixes a S N :: real
  assumes "S \<noteq> 0" "N \<noteq> 0"
  shows "a / S = a / N \<longleftrightarrow> S = N \<or> a = 0"
  using assms by (auto simp add: field_simps)

text \<open>
  C2 (as amended).  For scores of shape \<open>[N, C]\<close>, labels in \<open>{0,...,C-1}\<close> and class
  weights \<open>w\<close> whose sum over the batch's labels is not zero, the loss is the weighted
  mean \<open>(\<Sum>i. w[y_i] * (-log softmax(scores[i])[y_i])) / (\<Sum>i. w[y_i])\<close>: the sum is
  divided by the sum of the labels' weights, not by \<open>N\<close>.  It equals the arithmetic
  mean of the specification if and only if the labels' weights sum to \<open>N\<close> or the
  weighted sum of the sample losses is zero.
\<close>

theorem loss_weighted_mean:
  assumes len: "length scores = length labels"
    and rows: "\<forall>row\<in>set scores. length row = length w"
    and labs: "\<forall>y\<in>set labels. y < length w"
    and tot: "sum_list (map (\<lambda>y. w ! y) labels) \<noteq> 0"
  shows "loss_func w scores labels =
           Inr (Fin (sum_list (map2 (sample_loss w) scores labels)
                      / sum_list (map (\<lambda>y. w ! y) labels)))
         \<and> (loss_func w scores labels = Inr (Fin (spec_loss w scores labels))
              \<longleftrightarrow> sum_list (map (\<lambda>y. w ! y) labels) = real (length labels)
                   \<or> sum_list (map2 (sample_loss w) scores labels) = 0)"
proof -
  have a: "loss_func w scores labels =
           Inr (Fin (sum_list (map2 (sample_loss w) scores labels)
                      / sum_list (map (\<lambda>y. w ! y) labels)))"
    by (rule loss_func_closed [OF len rows labs tot])
  have "labels \<noteq> []" using tot by auto
  then have n: "real (length labels) \<noteq> 0" by simp
  have "sum_list (map2 (sample_loss w) scores labels) / sum_list (map (\<lambda>y. w ! y) labels)
          = sum_list (map2 (sample_loss w) scores labels) / real (length labels)
        \<longleftrightarrow> sum_list (map (\<lambda>y. w ! y) labels) = real (length labels)
            \<or> sum_list (map2 (sample_loss w) scores labels) = 0"
    by (rule quotient_eq_iff [OF tot n])
  then have b: "loss_func w scores labels = Inr (Fin (spec_loss w scores labels))
              \<longleftrightarrow> sum_list (map (\<lambda>y. w ! y) labels) = real (length labels)
                   \<or> sum_list (map2 (sample_loss w) scores labels) = 0"
    by (simp add: a spec_loss_def len)
  show ?thesis using a b by blast
qed

lemma sample_loss_even: "y < 2 \<Longrightarrow> sample_loss w [0, 0] y = w ! y * ln 2"
  by (cases y) (simp_all add: sample_loss_def ln_div)

theorem loss_weighted_mean_witness:
  "length [[0, 0], [0, 0::real]] = length [1, 1::nat]
   \<and> list_all (\<lambda>row. length row = length [2 / 3, 2::real]) [[0, 0], [0, 0::real]]
   \<and> list_all (\<lambda>y. y < length [2 / 3, 2::real]) [1, 1]
   \<and> sum_list (map (\<lambda>y. [2 / 3, 2::real] ! y) [1, 1]) = 4
   \<and> loss_func [2 / 3, 2] [[0, 0], [0, 0]] [1, 1] = Inr (Fin (ln 2))
   \<and> spec_loss [2 / 3, 2] [[0, 0], [0, 0]] [1, 1] = 2 * ln 2
   \<and> loss_func [2 / 3, 2] [[0, 0], [0, 0]] [1, 1]
       \<noteq> Inr (Fin (spec_loss [2 / 3, 2] [[0, 0], [0, 0]] [1, 1]))"
proof -
  have len: "length [[0, 0], [0, 0::real]] = length [1, 1::nat]" by simp
  have rows: "\<forall>row\<in>set [[0, 0], [0, 0::real]]. length row = length [2 / 3, 2::real]"
    by simp
  have labs: "\<forall>y\<in>set [1, 1::nat]. y < length [2 / 3, 2::real]" by simp
  have tot: "sum_list (map (\<lambda>y. [2 / 3, 2::real] ! y) [1, 1]) = 4" by simp
  have tot0: "sum_list (map (\<lambda>y. [2 / 3, 2::real] ! y) [1, 1]) \<noteq> 0" by simp
  have num: "sum_list (map2 (sample_loss [2 / 3, 2]) [[0, 0], [0, 0]] [1, 1]) = 4 * ln 2"
    by (simp add: sample_loss_even)
  have pos: "ln (2::real) \<noteq> 0" using ln_gt_zero [of "2::real"] by simp
  note t = loss_weighted_mean [OF len rows labs tot0]
  have a: "loss_func [2 / 3, 2] [[0, 0], [0, 0]] [1, 1] = Inr (Fin (ln 2))"
    using conjunct1 [OF t] by (simp only: num tot) simp
  have b: "loss_func [2 / 3, 2] [[0, 0], [0, 0]] [1, 1]
       \<noteq> Inr (Fin (spec_loss [2 / 3, 2] [[0, 0], [0, 0]] [1, 1]))"
    using conjunct2 [OF t] pos by (simp only: num tot) simp
  have c: "spec_loss [2 / 3, 2] [[0, 0], [0, 0]] [1, 1] = 2 * ln 2"
    by (simp add: spec_loss_def sample_loss_even)
  show ?thesis using a b c by simp
qed


lemma ce_value: "loss_func [2 / 3, 2] [[0, 0]] [1] = Inr (Fin (ln 2))"
  by (simp add: loss_func_def CrossEntropyLoss_def nll_loss_def fdiv_def log_softmax_def Let_def)

lemma spec_value: "spec_loss [2 / 3, 2] [[0, 0]] [1] = 2 * ln 2"
  by (simp add: spec_loss_def sample_loss_def ln_div)

text \<open>
  The claim as the specification states it (division by \<open>N\<close>) fails on one sample of
  class 1 with equal scores and the class weights \<open>(2/3, 2)\<close>: the program's loss is
  \<open>ln 2\<close>, the arithmetic mean of the specification is \<open>2 * ln 2\<close>.
\<close>

theorem loss_mean_counterexample:
  "loss_func [2 / 3, 2] [[0, 0]] [1] = Inr (Fin (ln 2))
   \<and> spec_loss [2 / 3, 2] [[0, 0]] [1] = 2 * ln 2
   \<and> loss_func [2 / 3, 2] [[0, 0]] [1] \<noteq> Inr (Fin (spec_loss [2 / 3, 2] [[0, 0]] [1]))"
proof -
  have "ln (2::real) \<noteq> 2 * ln 2" using ln_gt_zero [of "2::real"] by simp
  then show ?thesis using ce_value spec_value by simp
qed


section \<open>Properties of the optimizer\<close>

lemma map2_map1: "map2 f (map h xs) ys = map2 (\<lambda>x y. f (h x) y) xs ys"
  by (induction xs arbitrary: ys) (auto split: list.splits simp: zip_Cons1)

lemma map2_map2': "map2 f xs (map h ys) = map2 (\<lambda>x y. f x (h y)) xs ys"
  by (induction xs arbitrary: ys) (auto split: list.splits simp: zip_Cons1)

lemma vec_velocity: "vadd (vscale gamma v) g = map2 spec_velocity v g"
  by (simp add: vadd_def vscale_def map2_map1 spec_velocity_def)

lemma vec_theta: "vadd \<theta> (vscale (- alpha) b) = map2 spec_theta \<theta> b"
  by (simp add: vadd_def vscale_def map2_map2' spec_theta_def)

lemma mat_velocity: "madd (mscale gamma V) G = map2 (map2 spec_velocity) V G"
  by (simp add: madd_def mscale_def map2_map1 vec_velocity)

lemma mat_theta: "madd \<Theta> (mscale (- alpha) B) = map2 (map2 spec_theta) \<Theta> B"
  by (simp add: madd_def mscale_def map2_map2' vec_theta)

lemma vec_zero_velocity: "map2 spec_velocity (replicate (length g) 0) g = g"
  by (rule nth_equalityI) (simp_all add: spec_velocity_def)

lemma mat_zero_velocity:
  "map2 (map2 spec_velocity) (map (\<lambda>r. replicate (length r) 0) G) G = G"
  by (rule nth_equalityI) (simp_all add: vec_zero_velocity)

lemma opt_simps: "lr MLP_optimizer = alpha" "momentum MLP_optimizer = gamma" "gamma \<noteq> 0"
  by (simp_all add: MLP_optimizer_def gamma_def)

lemma sgd_vec_later:
  "grad p = Some g \<Longrightarrow> momentum_buffer p = Some v \<Longrightarrow>
     sgd_param vscale vadd MLP_optimizer p =
       p\<lparr>data := map2 spec_theta (data p) (map2 spec_velocity v g),
         momentum_buffer := Some (map2 spec_velocity v g)\<rparr>"
  by (simp add: sgd_param_def opt_simps Let_def vec_velocity vec_theta)

lemma sgd_vec_first:
  "grad p = Some g \<Longrightarrow> momentum_buffer p = None \<Longrightarrow>
     sgd_param vscale vadd MLP_optimizer p =
       p\<lparr>data := map2 spec_theta (data p) g, momentum_buffer := Some g\<rparr>"
  by (simp add: sgd_param_def opt_simps Let_def vec_theta)

lemma sgd_mat_later:
  "grad P = Some G \<Longrightarrow> momentum_buffer P = Some V \<Longrightarrow>
     sgd_param mscale madd MLP_optimizer P =
       P\<lparr>data := map2 (map2 spec_theta) (data P) (map2 (map2 spec_velocity) V G),
         momentum_buffer := Some (map2 (map2 spec_velocity) V G)\<rparr>"
  by (simp add: sgd_param_def opt_simps Let_def mat_velocity mat_theta)

lemma sgd_mat_first:
  "grad P = Some G \<Longrightarrow> momentum_buffer P = None \<Longrightarrow>
     sgd_param mscale madd MLP_optimizer P =
       P\<lparr>data := map2 (map2 spec_theta) (data P) G, momentum_buffer := Some G\<rparr>"
  by (simp add: sgd_param_def opt_simps Let_def mat_theta)

lemma step_slots:
  "weight (hidden1 (step opt M)) = sgd_param mscale madd opt (weight (hidden1 M))"
  "bias (hidden1 (step opt M)) = sgd_param vscale vadd opt (bias (hidden1 M))"
  "weight (output_layer (step opt M)) = sgd_param mscale madd opt (weight (output_layer M))"
  "bias (output_layer (step opt M)) = sgd_param vscale vadd opt (bias (output_layer M))"
  by (simp_all add: step_def)

text \<open>
  C3.  With learning rate \<open>\<alpha> = 0.008\<close> and momentum \<open>\<gamma> = 0.5\<close>, one optimizer step
  on a parameter with gradient \<open>g\<close> and velocity \<open>v\<close> sets, entry by entry,
  \<open>v \<leftarrow> \<gamma> * v + g\<close> and then \<open>\<theta> \<leftarrow> \<theta> - \<alpha> * v\<close>, on vectors and on matrices alike;
  a first step (no velocity yet) is the step from velocity 0 and gives
  \<open>\<theta> - \<alpha> * g\<close>; and a step of the optimizer updates each of the four parameter
  tensors by this rule from its own gradient and velocity alone.
\<close>

theorem sgd_momentum_rule:
  fixes p :: "vec param" and P :: "matrix param"
  assumes g: "grad p = Some g" and G: "grad P = Some G"
  shows "alpha = 0.008 \<and> gamma = 0.5
    \<and> (momentum_buffer p = Some v \<longrightarrow>
         momentum_buffer (sgd_param vscale vadd MLP_optimizer p) = Some (map2 spec_velocity v g)
         \<and> data (sgd_param vscale vadd MLP_optimizer p)
             = map2 spec_theta (data p) (map2 spec_velocity v g))
    \<and> (momentum_buffer P = Some V \<longrightarrow>
         momentum_buffer (sgd_param mscale madd MLP_optimizer P)
             = Some (map2 (map2 spec_velocity) V G)
         \<and> data (sgd_param mscale madd MLP_optimizer P)
             = map2 (map2 spec_theta) (data P) (map2 (map2 spec_velocity) V G))
    \<and> (momentum_buffer p = None \<longrightarrow>
         sgd_param vscale vadd MLP_optimizer p
           = sgd_param vscale vadd MLP_optimizer (p\<lparr>momentum_buffer := Some (replicate (length g) 0)\<rparr>)
         \<and> data (sgd_param vscale vadd MLP_optimizer p) = map2 (\<lambda>\<theta> g. \<theta> - alpha * g) (data p) g)
    \<and> (momentum_buffer P = None \<longrightarrow>
         sgd_param mscale madd MLP_optimizer P
           = sgd_param mscale madd MLP_optimizer
               (P\<lparr>momentum_buffer := Some (map (\<lambda>r. replicate (length r) 0) G)\<rparr>)
         \<and> data (sgd_param mscale madd MLP_optimizer P)
             = map2 (map2 (\<lambda>\<theta> g. \<theta> - alpha * g)) (data P) G)
    \<and> weight (hidden1 (step MLP_optimizer M))
         = sgd_param mscale madd MLP_optimizer (weight (hidden1 M))
    \<and> bias (hidden1 (step MLP_optimizer M))
         = sgd_param vscale vadd MLP_optimizer (bias (hidden1 M))
    \<and> weight (output_layer (step MLP_optimizer M))
         = sgd_param mscale madd MLP_optimizer (weight (output_layer M))
    \<and> bias (output_layer (step MLP_optimizer M))
         = sgd_param vscale vadd MLP_optimizer (bias (output_layer M))"
proof -
  have c: "alpha = 0.008 \<and> gamma = 0.5" by (simp add: alpha_def gamma_def)
  have v1: "momentum_buffer p = Some v \<longrightarrow>
         momentum_buffer (sgd_param vscale vadd MLP_optimizer p) = Some (map2 spec_velocity v g)
         \<and> data (sgd_param vscale vadd MLP_optimizer p)
             = map2 spec_theta (data p) (map2 spec_velocity v g)"
    using g by (simp add: sgd_vec_later)
  have m1: "momentum_buffer P = Some V \<longrightarrow>
         momentum_buffer (sgd_param mscale madd MLP_optimizer P)
             = Some (map2 (map2 spec_velocity) V G)
         \<and> data (sgd_param mscale madd MLP_optimizer P)
             = map2 (map2 spec_theta) (data P) (map2 (map2 spec_velocity) V G)"
    using G by (simp add: sgd_mat_later)
  have v0: "momentum_buffer p = None \<longrightarrow>
         sgd_param vscale vadd MLP_optimizer p
           = sgd_param vscale vadd MLP_optimizer (p\<lparr>momentum_buffer := Some (replicate (length g) 0)\<rparr>)
         \<and> data (sgd_param vscale vadd MLP_optimizer p) = map2 (\<lambda>\<theta> g. \<theta> - alpha * g) (data p) g"
  proof
    assume n: "momentum_buffer p = None"
    have a: "sgd_param vscale vadd MLP_optimizer (p\<lparr>momentum_buffer := Some (replicate (length g) 0)\<rparr>)
          = p\<lparr>data := map2 spec_theta (data p) g, momentum_buffer := Some g\<rparr>"
      using g by (simp add: sgd_vec_later [where v = "replicate (length g) 0" and g = g] vec_zero_velocity)
    have b: "map2 spec_theta (data p) g = map2 (\<lambda>\<theta> g. \<theta> - alpha * g) (data p) g"
      by (simp add: spec_theta_def [abs_def])
    show "sgd_param vscale vadd MLP_optimizer p
           = sgd_param vscale vadd MLP_optimizer (p\<lparr>momentum_buffer := Some (replicate (length g) 0)\<rparr>)
         \<and> data (sgd_param vscale vadd MLP_optimizer p) = map2 (\<lambda>\<theta> g. \<theta> - alpha * g) (data p) g"
      using a b sgd_vec_first [OF g n] by simp
  qed
  have m0: "momentum_buffer P = None \<longrightarrow>
         sgd_param mscale madd MLP_optimizer P
           = sgd_param mscale madd MLP_optimizer
               (P\<lparr>momentum_buffer := Some (map (\<lambda>r. replicate (length r) 0) G)\<rparr>)
         \<and> data (sgd_param mscale madd MLP_optimizer P)
             = map2 (map2 (\<lambda>\<theta> g. \<theta> - alpha * g)) (data P) G"
  proof
    assume n: "momentum_buffer P = None"
    have a: "sgd_param mscale madd MLP_optimizer
               (P\<lparr>momentum_buffer := Some (map (\<lambda>r. replicate (length r) 0) G)\<rparr>)
          = P\<lparr>data := map2 (map2 spec_theta) (data P) G, momentum_buffer := Some G\<rparr>"
      using G by (simp add: sgd_mat_later [where V = "map (\<lambda>r. replicate (length r) 0) G" and G = G]
          mat_zero_velocity)
    have b: "map2 (map2 spec_theta) (data P) G = map2 (map2 (\<lambda>\<theta> g. \<theta> - alpha * g)) (data P) G"
      by (simp add: spec_theta_def [abs_def])
    show "sgd_param mscale madd MLP_optimizer P
           = sgd_param mscale madd MLP_optimizer
               (P\<lparr>momentum_buffer := Some (map (\<lambda>r. replicate (length r) 0) G)\<rparr>)
         \<and> data (sgd_param mscale madd MLP_optimizer P)
             = map2 (map2 (\<lambda>\<theta> g. \<theta> - alpha * g)) (data P) G"
      using a b sgd_mat_first [OF G n] by simp
  qed
  show ?thesis
    using c v1 m1 v0 m0 step_slots [of MLP_optimizer M] by blast
qed

theorem sgd_momentum_rule_witness:
  "grad \<lparr>data = [1, 2::real], grad = Some [10, 20], momentum_buffer = None\<rparr> = Some [10, 20]
   \<and> data (sgd_param vscale vadd MLP_optimizer
              \<lparr>data = [1, 2], grad = Some [10, 20], momentum_buffer = None\<rparr>)
       = [0.92, 1.84]
   \<and> data (sgd_param vscale vadd MLP_optimizer
              \<lparr>data = [1, 2], grad = Some [10, 20], momentum_buffer = Some [4, - 4]\<rparr>)
       = [0.904, 1.856]
   \<and> data (sgd_param mscale madd MLP_optimizer
              \<lparr>data = [[1, 2]], grad = Some [[10, 20]], momentum_buffer = Some [[4, - 4]]\<rparr>)
       = [[0.904, 1.856]]"
proof -
  define p0 :: "vec param" where "p0 = \<lparr>data = [1, 2], grad = Some [10, 20], momentum_buffer = None\<rparr>"
  define p1 :: "vec param" where
    "p1 = \<lparr>data = [1, 2], grad = Some [10, 20], momentum_buffer = Some [4, - 4]\<rparr>"
  define P1 :: "matrix param" where
    "P1 = \<lparr>data = [[1, 2]], grad = Some [[10, 20]], momentum_buffer = Some [[4, - 4]]\<rparr>"
  have g0: "grad p0 = Some [10, 20]" and g1: "grad p1 = Some [10, 20]"
    and G1: "grad P1 = Some [[10, 20]]"
    by (simp_all add: p0_def p1_def P1_def)
  have "momentum_buffer p0 = None \<longrightarrow>
         sgd_param vscale vadd MLP_optimizer p0
           = sgd_param vscale vadd MLP_optimizer (p0\<lparr>momentum_buffer := Some (replicate (length [10, 20::real]) 0)\<rparr>)
         \<and> data (sgd_param vscale vadd MLP_optimizer p0)
             = map2 (\<lambda>\<theta> g. \<theta> - alpha * g) (data p0) [10, 20]"
    using sgd_momentum_rule [OF g0 G1, where v = "[]" and V = "[]" and M = "MLP_init 2 1 2 [[1, - 1]] [0] [[1], [2]] [0, 1]"]
    by (elim conjE)
  moreover have "momentum_buffer p0 = None" by (simp add: p0_def)
  ultimately have "sgd_param vscale vadd MLP_optimizer p0
           = sgd_param vscale vadd MLP_optimizer (p0\<lparr>momentum_buffer := Some (replicate (length [10, 20::real]) 0)\<rparr>)
         \<and> data (sgd_param vscale vadd MLP_optimizer p0)
             = map2 (\<lambda>\<theta> g. \<theta> - alpha * g) (data p0) [10, 20]"
    by (rule mp)
  then have "data (sgd_param vscale vadd MLP_optimizer p0)
             = map2 (\<lambda>\<theta> g. \<theta> - alpha * g) (data p0) [10, 20]"
    by (rule conjunct2)
  then have a: "data (sgd_param vscale vadd MLP_optimizer p0) = [0.92, 1.84]"
    by (simp add: p0_def alpha_def)
  have "momentum_buffer p1 = Some [4, - 4] \<longrightarrow>
         momentum_buffer (sgd_param vscale vadd MLP_optimizer p1)
           = Some (map2 spec_velocity [4, - 4] [10, 20])
         \<and> data (sgd_param vscale vadd MLP_optimizer p1)
             = map2 spec_theta (data p1) (map2 spec_velocity [4, - 4] [10, 20])"
    using sgd_momentum_rule [OF g1 G1, where v = "[4, - 4]" and V = "[[4, - 4]]" and M = "MLP_init 2 1 2 [[1, - 1]] [0] [[1], [2]] [0, 1]"]
    by (elim conjE)
  then have b: "data (sgd_param vscale vadd MLP_optimizer p1) = [0.904, 1.856]"
    by (simp add: p1_def alpha_def gamma_def spec_theta_def spec_velocity_def)
  have "momentum_buffer P1 = Some [[4, - 4]] \<longrightarrow>
         momentum_buffer (sgd_param mscale madd MLP_optimizer P1)
             = Some (map2 (map2 spec_velocity) [[4, - 4]] [[10, 20]])
         \<and> data (sgd_param mscale madd MLP_optimizer P1)
             = map2 (map2 spec_theta) (data P1) (map2 (map2 spec_velocity) [[4, - 4]] [[10, 20]])"
    using sgd_momentum_rule [OF g1 G1, where v = "[4, - 4]" and V = "[[4, - 4]]" and M = "MLP_init 2 1 2 [[1, - 1]] [0] [[1], [2]] [0, 1]"]
    by (elim conjE)
  then have c: "data (sgd_param mscale madd MLP_optimizer P1) = [[0.904, 1.856]]"
    by (simp add: P1_def alpha_def gamma_def spec_theta_def spec_velocity_def)
  show ?thesis using a b c by (simp add: p0_def p1_def P1_def)
qed


section \<open>Shapes are preserved\<close>

lemma shaped_madd: "shaped r c A \<Longrightarrow> shaped r c B \<Longrightarrow> shaped r c (madd A B)"
  by (auto simp add: shaped_def madd_def vadd_def list_all_length)

lemma shaped_mscale: "shaped r c A \<Longrightarrow> shaped r c (mscale a A)"
  by (auto simp add: shaped_def mscale_def vscale_def list_all_length)

lemma length_vadd: "length x = n \<Longrightarrow> length y = n \<Longrightarrow> length (vadd x y) = n"
  by (simp add: vadd_def)

lemma length_vscale: "length (vscale a x) = length x"
  by (simp add: vscale_def)

lemma param_ok_sgd:
  assumes add: "\<And>x y. ok x \<Longrightarrow> ok y \<Longrightarrow> ok (add x y)" and sc: "\<And>a x. ok x \<Longrightarrow> ok (scale a x)"
    and p: "param_ok ok p"
  shows "param_ok ok (sgd_param scale add opt p)"
  using p by (auto simp add: param_ok_def sgd_param_def Let_def add sc split: option.splits)

lemma param_ok_accumulate:
  assumes add: "\<And>x y. ok x \<Longrightarrow> ok y \<Longrightarrow> ok (add x y)" and g: "ok g" and p: "param_ok ok p"
  shows "param_ok ok (accumulate add g p)"
  using p g by (auto simp add: param_ok_def accumulate_def add split: option.splits)

lemma param_ok_reset: "param_ok ok p \<Longrightarrow> param_ok ok (p\<lparr>grad := None\<rparr>)"
  by (simp add: param_ok_def)

lemma linear_inv_reset:
  "linear_inv L \<Longrightarrow>
   linear_inv (L\<lparr>weight := (weight L)\<lparr>grad := None\<rparr>, bias := (bias L)\<lparr>grad := None\<rparr>\<rparr>)"
  by (simp add: linear_inv_def param_ok_reset)

lemma linear_inv_sgd:
  "linear_inv L \<Longrightarrow>
   linear_inv (L\<lparr>weight := sgd_param mscale madd opt (weight L),
                 bias := sgd_param vscale vadd opt (bias L)\<rparr>)"
  by (simp add: linear_inv_def param_ok_sgd shaped_madd shaped_mscale length_vadd length_vscale)

lemma linear_inv_accumulate:
  "linear_inv L \<Longrightarrow> shaped (out_features L) (in_features L) gW \<Longrightarrow> length gb = out_features L \<Longrightarrow>
   linear_inv (L\<lparr>weight := accumulate madd gW (weight L),
                 bias := accumulate vadd gb (bias L)\<rparr>)"
  by (simp add: linear_inv_def param_ok_accumulate shaped_madd length_vadd)

lemma linear_inv_wf: "linear_inv L \<Longrightarrow> linear_wf L"
  by (simp add: linear_inv_def linear_wf_def param_ok_def shaped_def)

lemma mlp_inv_zero_grad: "mlp_inv M \<Longrightarrow> mlp_inv (zero_grad M)"
  by (simp add: mlp_inv_def zero_grad_def linear_inv_reset)

lemma mlp_inv_step: "mlp_inv M \<Longrightarrow> mlp_inv (step opt M)"
  by (simp add: mlp_inv_def step_def linear_inv_sgd)

lemma mlp_inv_backward:
  assumes inv: "mlp_inv M" and G: "autograd_ok G"
  shows "mlp_inv (backward G M X y)"
proof -
  obtain gW1 gb1 gW2 gb2 where g: "G M X y = (gW1, gb1, gW2, gb2)"
    by (cases "G M X y") auto
  have "grads_ok M (G M X y)" using G inv by (simp add: autograd_ok_def)
  then show ?thesis
    using inv by (simp add: g grads_ok_def backward_def mlp_inv_def linear_inv_accumulate)
qed

lemma mlp_inv_wf: "mlp_inv M \<Longrightarrow> mlp_wf M"
  by (simp add: mlp_inv_def mlp_wf_def linear_inv_wf)

section \<open>Properties of the training loop\<close>

lemma forward_shape:
  assumes wf: "mlp_wf M" and X: "\<forall>x\<in>set X. length x = in_features (hidden1 M)"
  shows "\<exists>out. forward M X = Inr out \<and> length out = length X
               \<and> (\<forall>r\<in>set out. length r = out_features (output_layer M))"
proof -
  have wf1: "linear_wf (hidden1 M)" and wf2: "linear_wf (output_layer M)"
    and io: "in_features (output_layer M) = out_features (hidden1 M)"
    using wf by (simp_all add: mlp_wf_def)
  obtain pre where pre: "linear_forward (hidden1 M) X = Inr pre" and lp: "length pre = length X"
    and rp: "\<forall>r\<in>set pre. length r = out_features (hidden1 M)"
    using linear_forward_shape [OF wf1 X] by blast
  have rh: "\<forall>r\<in>set (relu pre). length r = in_features (output_layer M)"
    using relu_rows [OF rp] io by simp
  have f: "forward M X = linear_forward (output_layer M) (relu pre)"
    by (simp add: forward_def pre)
  show ?thesis
    using linear_forward_shape [OF wf2 rh] lp by (simp add: f length_relu)
qed

lemma forward_zero_grad: "forward (zero_grad M) X = forward M X"
  by (simp add: forward_def linear_forward_def zero_grad_def)

lemma loss_func_defined:
  assumes "length out = length labels" "\<forall>r\<in>set out. length r = length w"
    "list_all (\<lambda>y. y < length w) labels"
  shows "\<exists>l. loss_func w out labels = Inr l"
  using assms by (simp add: loss_func_def CrossEntropyLoss_def list_all_iff)

lemma dims_zero_grad:
  "in_features (hidden1 (zero_grad M)) = in_features (hidden1 M)"
  "out_features (output_layer (zero_grad M)) = out_features (output_layer M)"
  by (simp_all add: zero_grad_def)

lemma dims_step:
  "in_features (hidden1 (step opt M)) = in_features (hidden1 M)"
  "out_features (output_layer (step opt M)) = out_features (output_layer M)"
  by (simp_all add: step_def)

lemma dims_backward:
  "in_features (hidden1 (backward G M X y)) = in_features (hidden1 M)"
  "out_features (output_layer (backward G M X y)) = out_features (output_layer M)"
  by (simp_all add: backward_def split: prod.splits)

text \<open>What one batch does when it returns.\<close>

lemma train_batch_Inr:
  assumes "train_batch G loss_fn opt s (features, labels) = Inr s'"
  shows "\<exists>out l. forward (model s) features = Inr out \<and> loss_fn out labels = Inr l
           \<and> train_losses s' = train_losses s @ [l]
           \<and> events s' = events s @ [ZeroGrad, Forward, Loss, Backward, Step]
           \<and> model s' = step opt (backward G (zero_grad (model s)) features labels)"
  using assms
  by (auto simp add: train_batch_def Let_def forward_zero_grad split: sum.splits)

lemma train_batch_succeeds:
  assumes out: "forward (model s) features = Inr out" and l: "loss_fn out labels = Inr l"
  shows "train_batch G loss_fn opt s (features, labels) =
           Inr \<lparr>model = step opt (backward G (zero_grad (model s)) features labels),
                train_losses = train_losses s @ [l],
                events = events s @ [ZeroGrad, Forward, Loss, Backward, Step]\<rparr>"
  using assms by (simp add: train_batch_def Let_def forward_zero_grad)

lemma train_batch_ok:
  assumes inv: "run_inv n c s" and G: "autograd_ok G" and w: "length w = c"
    and b: "batch_ok n c b"
  shows "\<exists>s' l. train_batch G (loss_func w) opt s b = Inr s' \<and> run_inv n c s'
           \<and> train_losses s' = train_losses s @ [l]
           \<and> events s' = events s @ [ZeroGrad, Forward, Loss, Backward, Step]"
proof -
  obtain features labels where bb: "b = (features, labels)" by (cases b) auto
  have mi: "mlp_inv (model s)" and din: "in_features (hidden1 (model s)) = n"
    and dout: "out_features (output_layer (model s)) = c"
    using inv by (simp_all add: run_inv_def)
  have fx: "\<forall>x\<in>set features. length x = in_features (hidden1 (model s))"
    and ll: "length labels = length features" and ly: "list_all (\<lambda>y. y < length w) labels"
    using b din w by (simp_all add: bb batch_ok_def list_all_iff)
  obtain out where out: "forward (model s) features = Inr out" and lo: "length out = length features"
    and ro: "\<forall>r\<in>set out. length r = out_features (output_layer (model s))"
    using forward_shape [OF mlp_inv_wf [OF mi] fx] by blast
  have "\<exists>l. loss_func w out labels = Inr l"
    using lo ll ro dout w ly by (intro loss_func_defined) simp_all
  then obtain l where l: "loss_func w out labels = Inr l" by blast
  let ?M' = "step opt (backward G (zero_grad (model s)) features labels)"
  have inv': "mlp_inv ?M'"
    by (intro mlp_inv_step mlp_inv_backward mlp_inv_zero_grad mi G)
  have "run_inv n c \<lparr>model = ?M', train_losses = train_losses s @ [l],
                events = events s @ [ZeroGrad, Forward, Loss, Backward, Step]\<rparr>"
    using inv' din dout by (simp add: run_inv_def dims_step dims_backward dims_zero_grad)
  then show ?thesis
    using train_batch_succeeds [where loss_fn = "loss_func w" and G = G and opt = opt, OF out l]
    by (simp add: bb)
qed

lemma train_batches_ok:
  assumes G: "autograd_ok G" and w: "length w = c"
  shows "run_inv n c s \<Longrightarrow> list_all (batch_ok n c) bs \<Longrightarrow>
     \<exists>s' ls. train_batches G (loss_func w) opt s bs = Inr s' \<and> run_inv n c s'
           \<and> train_losses s' = train_losses s @ ls \<and> length ls = length bs
           \<and> events s' = events s @ concat (replicate (length bs) [ZeroGrad, Forward, Loss, Backward, Step])"
proof (induction bs arbitrary: s)
  case Nil
  then show ?case by simp
next
  case (Cons b bs)
  have b: "batch_ok n c b" and bs: "list_all (batch_ok n c) bs" using Cons.prems by simp_all
  obtain s1 l where s1: "train_batch G (loss_func w) opt s b = Inr s1" and i1: "run_inv n c s1"
    and l1: "train_losses s1 = train_losses s @ [l]"
    and e1: "events s1 = events s @ [ZeroGrad, Forward, Loss, Backward, Step]"
    using train_batch_ok [OF Cons.prems(1) G w b] by blast
  obtain s' ls where s': "train_batches G (loss_func w) opt s1 bs = Inr s'" and i': "run_inv n c s'"
    and l': "train_losses s' = train_losses s1 @ ls" and ll: "length ls = length bs"
    and e': "events s' = events s1 @ concat (replicate (length bs) [ZeroGrad, Forward, Loss, Backward, Step])"
    using Cons.IH [OF i1 bs] by blast
  have "train_batches G (loss_func w) opt s (b # bs) = Inr s'" by (simp add: s1 s')
  moreover have "train_losses s' = train_losses s @ (l # ls)" by (simp add: l' l1)
  moreover have "length (l # ls) = length (b # bs)" by (simp add: ll)
  moreover have "events s' = events s @ concat (replicate (length (b # bs)) [ZeroGrad, Forward, Loss, Backward, Step])"
    by (simp add: e' e1)
  ultimately show ?case using i' by blast
qed

lemma train_epochs_ok:
  assumes G: "autograd_ok G" and w: "length w = c"
  shows "run_inv n c s \<Longrightarrow>
     \<forall>e. epoch \<le> e \<and> e < epoch + k \<longrightarrow> length (D e) = B \<and> list_all (batch_ok n c) (D e) \<Longrightarrow>
     \<exists>s' ls. train_epochs G (loss_func w) opt D epoch k s = Inr s' \<and> run_inv n c s'
           \<and> train_losses s' = train_losses s @ ls \<and> length ls = k * B
           \<and> events s' = events s @ concat (replicate (k * B) [ZeroGrad, Forward, Loss, Backward, Step])"
proof (induction k arbitrary: epoch s)
  case 0
  then show ?case by simp
next
  case (Suc k)
  have here: "length (D epoch) = B" "list_all (batch_ok n c) (D epoch)"
    using Suc.prems(2) by simp_all
  obtain s1 ls1 where s1: "train_batches G (loss_func w) opt s (D epoch) = Inr s1"
    and i1: "run_inv n c s1" and l1: "train_losses s1 = train_losses s @ ls1"
    and ll1: "length ls1 = B"
    and e1: "events s1 = events s @ concat (replicate B [ZeroGrad, Forward, Loss, Backward, Step])"
    using train_batches_ok [OF G w Suc.prems(1) here(2), of opt] here(1) by auto
  have rest: "\<forall>e. Suc epoch \<le> e \<and> e < Suc epoch + k \<longrightarrow> length (D e) = B \<and> list_all (batch_ok n c) (D e)"
    using Suc.prems(2) by simp
  obtain s' ls where s': "train_epochs G (loss_func w) opt D (Suc epoch) k s1 = Inr s'"
    and i': "run_inv n c s'" and l': "train_losses s' = train_losses s1 @ ls"
    and ll: "length ls = k * B"
    and e': "events s' = events s1 @ concat (replicate (k * B) [ZeroGrad, Forward, Loss, Backward, Step])"
    using Suc.IH [OF i1 rest] by blast
  have "train_epochs G (loss_func w) opt D epoch (Suc k) s = Inr s'" by (simp add: s1 s')
  moreover have "train_losses s' = train_losses s @ (ls1 @ ls)" by (simp add: l' l1)
  moreover have "length (ls1 @ ls) = Suc k * B" by (simp add: ll ll1)
  moreover have "events s' = events s @ concat (replicate (Suc k * B) [ZeroGrad, Forward, Loss, Backward, Step])"
    by (simp add: e' e1 replicate_add)
  ultimately show ?case using i' by blast
qed

lemma train_epochs_add:
  "train_epochs G lf opt D epoch (k + j) s =
     (case train_epochs G lf opt D epoch k s of
        Inl e \<Rightarrow> Inl e
      | Inr s' \<Rightarrow> train_epochs G lf opt D (epoch + k) j s')"
  by (induction k arbitrary: epoch s) (simp_all split: sum.splits)

lemma run_inv_start:
  "mlp_inv M \<Longrightarrow> in_features (hidden1 M) = n \<Longrightarrow> out_features (output_layer M) = c \<Longrightarrow>
   run_inv n c \<lparr>model = M\<lparr>training := True\<rparr>, train_losses = [], events = []\<rparr>"
  by (simp add: run_inv_def mlp_inv_def)

lemma train_run_ok:
  assumes inv: "mlp_inv M" and G: "autograd_ok G"
    and din: "in_features (hidden1 M) = input_dim"
    and dout: "out_features (output_layer M) = num_classes"
    and w: "length w = num_classes"
    and D: "\<forall>e. e < nat num_epochs \<longrightarrow>
               length (training_data e) = B
               \<and> list_all (batch_ok input_dim num_classes) (training_data e)"
  shows "\<exists>s. train_ANN_model G num_epochs training_data M (loss_func w) optimizer = Inr s
           \<and> run_inv input_dim num_classes s
           \<and> length (train_losses s) = nat num_epochs * B
           \<and> events s = concat (replicate (nat num_epochs * B)
                                   [ZeroGrad, Forward, Loss, Backward, Step])"
proof -
  have D': "\<forall>e. 0 \<le> e \<and> e < 0 + nat num_epochs \<longrightarrow>
               length (training_data e) = B
               \<and> list_all (batch_ok input_dim num_classes) (training_data e)"
    using D by simp
  show ?thesis
    using train_epochs_ok [OF G w run_inv_start [OF inv din dout] D', of optimizer]
    by (auto simp add: train_ANN_model_def)
qed

lemma train_run_prefix:
  assumes inv: "mlp_inv M" and G: "autograd_ok G"
    and din: "in_features (hidden1 M) = input_dim"
    and dout: "out_features (output_layer M) = num_classes"
    and w: "length w = num_classes"
    and D: "\<forall>e. e < nat num_epochs \<longrightarrow>
               length (training_data e) = B
               \<and> list_all (batch_ok input_dim num_classes) (training_data e)"
    and full: "train_ANN_model G num_epochs training_data M (loss_func w) optimizer = Inr s"
    and k: "0 \<le> k" "k \<le> num_epochs"
  shows "\<exists>s_k. train_ANN_model G k training_data M (loss_func w) optimizer = Inr s_k
           \<and> train_losses s_k = take (nat k * B) (train_losses s)"
proof -
  let ?s0 = "\<lparr>model = M\<lparr>training := True\<rparr>, train_losses = [], events = []\<rparr>"
  define j where "j = nat num_epochs - nat k"
  have split: "nat num_epochs = nat k + j" using k by (simp add: j_def)
  have Dk: "\<forall>e. e < nat k \<longrightarrow>
               length (training_data e) = B
               \<and> list_all (batch_ok input_dim num_classes) (training_data e)"
    using D split by simp
  obtain s_k where sk: "train_ANN_model G k training_data M (loss_func w) optimizer = Inr s_k"
    and ik: "run_inv input_dim num_classes s_k"
    and lk: "length (train_losses s_k) = nat k * B"
    using train_run_ok [OF inv G din dout w Dk, of optimizer] by blast
  have Dj: "\<forall>e. nat k \<le> e \<and> e < nat k + j \<longrightarrow>
               length (training_data e) = B
               \<and> list_all (batch_ok input_dim num_classes) (training_data e)"
    using D split by simp
  obtain s' ls where s': "train_epochs G (loss_func w) optimizer training_data (nat k) j s_k = Inr s'"
    and l': "train_losses s' = train_losses s_k @ ls"
    using train_epochs_ok [OF G w ik Dj, of optimizer] by blast
  have "train_epochs G (loss_func w) optimizer training_data 0 (nat k + j) ?s0 = Inr s'"
    using sk s' by (simp add: train_epochs_add train_ANN_model_def)
  then have "s = s'" using full split by (simp add: train_ANN_model_def)
  then have "train_losses s_k = take (nat k * B) (train_losses s)"
    using l' lk by simp
  then show ?thesis using sk by blast
qed

lemma grads_ok_data:
  assumes "mlp_inv M"
  shows "grads_ok M (data (weight (hidden1 M)), data (bias (hidden1 M)),
               data (weight (output_layer M)), data (bias (output_layer M)))"
proof -
  have h: "linear_inv (hidden1 M)" and o: "linear_inv (output_layer M)"
    using assms by (simp_all add: mlp_inv_def)
  have "shaped (out_features (hidden1 M)) (in_features (hidden1 M)) (data (weight (hidden1 M)))"
    and "length (data (bias (hidden1 M))) = out_features (hidden1 M)"
    using h by (simp_all add: linear_inv_def param_ok_def)
  moreover have "shaped (out_features (output_layer M)) (in_features (output_layer M))
        (data (weight (output_layer M)))"
    and "length (data (bias (output_layer M))) = out_features (output_layer M)"
    using o by (simp_all add: linear_inv_def param_ok_def)
  ultimately show ?thesis by (simp add: grads_ok_def)
qed

lemma model_after_Nil: "model_after G opt M [] = M"
  by (simp add: model_after_def)

lemma model_after_Cons:
  "model_after G opt M (b # bs) =
     model_after G opt (step opt (backward G (zero_grad M) (fst b) (snd b))) bs"
  by (simp add: model_after_def)

lemma train_batch_step:
  assumes inv: "run_inv n c s" and G: "autograd_ok G" and w: "length w = c"
    and b: "batch_ok n c b"
  shows "\<exists>s' out l. train_batch G (loss_func w) opt s b = Inr s' \<and> run_inv n c s'
           \<and> forward (model s) (fst b) = Inr out \<and> loss_func w out (snd b) = Inr l
           \<and> train_losses s' = train_losses s @ [l]
           \<and> model s' = step opt (backward G (zero_grad (model s)) (fst b) (snd b))
           \<and> events s' = events s @ [ZeroGrad, Forward, Loss, Backward, Step]"
proof -
  obtain s' l0 where r: "train_batch G (loss_func w) opt s b = Inr s'" and i: "run_inv n c s'"
    using train_batch_ok [OF inv G w b, of opt] by blast
  obtain features labels where bb: "b = (features, labels)" by (cases b) auto
  show ?thesis
    using train_batch_Inr [OF r [unfolded bb]] r i by (auto simp add: bb)
qed

lemma train_batches_trace:
  assumes G: "autograd_ok G" and w: "length w = c"
  shows "run_inv n c s \<Longrightarrow> list_all (batch_ok n c) bs \<Longrightarrow>
     \<exists>s' ls. train_batches G (loss_func w) opt s bs = Inr s' \<and> run_inv n c s'
           \<and> model s' = model_after G opt (model s) bs
           \<and> train_losses s' = train_losses s @ ls \<and> length ls = length bs
           \<and> (\<forall>k<length bs. \<exists>out.
                 forward (model_after G opt (model s) (take k bs)) (fst (bs ! k)) = Inr out
                 \<and> loss_func w out (snd (bs ! k)) = Inr (ls ! k))
           \<and> events s' = events s @ concat (replicate (length bs) [ZeroGrad, Forward, Loss, Backward, Step])"
proof (induction bs arbitrary: s)
  case Nil
  then show ?case by (simp add: model_after_Nil)
next
  case (Cons b bs)
  have b: "batch_ok n c b" and bs: "list_all (batch_ok n c) bs" using Cons.prems by simp_all
  obtain s1 out0 l where s1: "train_batch G (loss_func w) opt s b = Inr s1" and i1: "run_inv n c s1"
    and f0: "forward (model s) (fst b) = Inr out0" and l0: "loss_func w out0 (snd b) = Inr l"
    and l1: "train_losses s1 = train_losses s @ [l]"
    and m1: "model s1 = step opt (backward G (zero_grad (model s)) (fst b) (snd b))"
    and e1: "events s1 = events s @ [ZeroGrad, Forward, Loss, Backward, Step]"
    using train_batch_step [OF Cons.prems(1) G w b, of opt] by blast
  obtain s' ls where s': "train_batches G (loss_func w) opt s1 bs = Inr s'" and i': "run_inv n c s'"
    and m': "model s' = model_after G opt (model s1) bs"
    and l': "train_losses s' = train_losses s1 @ ls" and ll: "length ls = length bs"
    and tr: "\<forall>k<length bs. \<exists>out.
                 forward (model_after G opt (model s1) (take k bs)) (fst (bs ! k)) = Inr out
                 \<and> loss_func w out (snd (bs ! k)) = Inr (ls ! k)"
    and e': "events s' = events s1 @ concat (replicate (length bs) [ZeroGrad, Forward, Loss, Backward, Step])"
    using Cons.IH [OF i1 bs] by blast
  have r: "train_batches G (loss_func w) opt s (b # bs) = Inr s'" by (simp add: s1 s')
  have m: "model s' = model_after G opt (model s) (b # bs)"
    by (simp add: m' m1 model_after_Cons)
  have lo: "train_losses s' = train_losses s @ (l # ls)" by (simp add: l' l1)
  have len: "length (l # ls) = length (b # bs)" by (simp add: ll)
  have ev: "events s' = events s @ concat (replicate (length (b # bs)) [ZeroGrad, Forward, Loss, Backward, Step])"
    by (simp add: e' e1)
  have each: "\<forall>k<length (b # bs). \<exists>out.
                 forward (model_after G opt (model s) (take k (b # bs))) (fst ((b # bs) ! k)) = Inr out
                 \<and> loss_func w out (snd ((b # bs) ! k)) = Inr ((l # ls) ! k)"
  proof (intro allI impI)
    fix k assume k: "k < length (b # bs)"
    show "\<exists>out. forward (model_after G opt (model s) (take k (b # bs))) (fst ((b # bs) ! k)) = Inr out
                 \<and> loss_func w out (snd ((b # bs) ! k)) = Inr ((l # ls) ! k)"
    proof (cases k)
      case 0
      then show ?thesis using f0 l0 by (simp add: model_after_Nil)
    next
      case (Suc j)
      then have "j < length bs" using k by simp
      then show ?thesis using tr Suc by (simp add: model_after_Cons m1)
    qed
  qed
  show ?case using r i' m lo len each ev by blast
qed

lemma train_batches_append:
  "train_batches G lf opt s (xs @ ys) =
     (case train_batches G lf opt s xs of
        Inl e \<Rightarrow> Inl e
      | Inr s' \<Rightarrow> train_batches G lf opt s' ys)"
  by (induction xs arbitrary: s) (simp_all split: sum.splits)

lemma train_epochs_batches:
  "train_epochs G lf opt D epoch k s =
     train_batches G lf opt s (concat (map D [epoch..<epoch + k]))"
proof (induction k arbitrary: epoch s)
  case 0
  show ?case by simp
next
  case (Suc k)
  have u: "[epoch..<epoch + Suc k] = epoch # [Suc epoch..<Suc epoch + k]"
    by (simp add: upt_conv_Cons)
  show ?case
    unfolding u by (simp add: train_batches_append Suc.IH split: sum.splits)
qed

lemma train_ANN_model_batches:
  "train_ANN_model G num_epochs training_data M lf optimizer =
     train_batches G lf optimizer
       \<lparr>model = M\<lparr>training := True\<rparr>, train_losses = [], events = []\<rparr>
       (batches_in_order training_data (nat num_epochs))"
  by (simp add: train_ANN_model_def train_epochs_batches batches_in_order_def)

lemma batches_in_order_ok:
  assumes "\<forall>e. e < n \<longrightarrow> length (D e) = B \<and> list_all P (D e)"
  shows "length (batches_in_order D n) = n * B \<and> list_all P (batches_in_order D n)"
  using assms
proof (induction n)
  case 0
  show ?case by (simp add: batches_in_order_def)
next
  case (Suc n)
  have "length (batches_in_order D n) = n * B \<and> list_all P (batches_in_order D n)"
    using Suc by simp
  moreover have "length (D n) = B \<and> list_all P (D n)" using Suc.prems by simp
  ultimately show ?case by (simp add: batches_in_order_def)
qed

lemma train_run_trace:
  assumes inv: "mlp_inv M" and G: "autograd_ok G"
    and din: "in_features (hidden1 M) = input_dim"
    and dout: "out_features (output_layer M) = num_classes"
    and w: "length w = num_classes"
    and D: "\<forall>e. e < nat num_epochs \<longrightarrow>
               length (training_data e) = B
               \<and> list_all (batch_ok input_dim num_classes) (training_data e)"
  shows "\<exists>s. train_ANN_model G num_epochs training_data M (loss_func w) optimizer = Inr s
           \<and> model s = model_after G optimizer (M\<lparr>training := True\<rparr>)
                          (batches_in_order training_data (nat num_epochs))
           \<and> length (train_losses s) = nat num_epochs * B
           \<and> length (train_losses s) = length (batches_in_order training_data (nat num_epochs))
           \<and> (\<forall>k<length (train_losses s). \<exists>out.
                 forward (model_after G optimizer (M\<lparr>training := True\<rparr>)
                            (take k (batches_in_order training_data (nat num_epochs))))
                         (fst (batches_in_order training_data (nat num_epochs) ! k)) = Inr out
                 \<and> loss_func w out (snd (batches_in_order training_data (nat num_epochs) ! k))
                     = Inr (train_losses s ! k))
           \<and> events s = concat (replicate (nat num_epochs * B)
                                   [ZeroGrad, Forward, Loss, Backward, Step])"
proof -
  let ?bs = "batches_in_order training_data (nat num_epochs)"
  let ?s0 = "\<lparr>model = M\<lparr>training := True\<rparr>, train_losses = [], events = []\<rparr>"
  have bs: "length ?bs = nat num_epochs * B \<and> list_all (batch_ok input_dim num_classes) ?bs"
    by (rule batches_in_order_ok [OF D])
  have i0: "run_inv input_dim num_classes ?s0" by (rule run_inv_start [OF inv din dout])
  obtain s ls where r: "train_batches G (loss_func w) optimizer ?s0 ?bs = Inr s"
    and m: "model s = model_after G optimizer (model ?s0) ?bs"
    and l: "train_losses s = train_losses ?s0 @ ls" and ll: "length ls = length ?bs"
    and tr: "\<forall>k<length ?bs. \<exists>out.
                 forward (model_after G optimizer (model ?s0) (take k ?bs)) (fst (?bs ! k)) = Inr out
                 \<and> loss_func w out (snd (?bs ! k)) = Inr (ls ! k)"
    and e: "events s = events ?s0 @ concat (replicate (length ?bs) [ZeroGrad, Forward, Loss, Backward, Step])"
    using train_batches_trace [OF G w i0 conjunct2 [OF bs], of optimizer] by blast
  have ls: "train_losses s = ls" using l by simp
  show ?thesis
    using r m tr e bs ll by (simp add: train_ANN_model_batches ls)
qed

text \<open>An example run.\<close>

lemma example_autograd_ok:
  "autograd_ok (\<lambda>M X y.
      (map (map (\<lambda>v. 0)) (data (weight (hidden1 M))),
       map (\<lambda>v. 0) (data (bias (hidden1 M))),
       map (map (\<lambda>v. 0)) (data (weight (output_layer M))),
       map (\<lambda>j. if j = 0 then - 125 * ln 3 else 0) [0..<length (data (bias (output_layer M)))]))"
proof -
  have "grads_ok M
      (map (map (\<lambda>v. 0)) (data (weight (hidden1 M))),
       map (\<lambda>v. 0) (data (bias (hidden1 M))),
       map (map (\<lambda>v. 0)) (data (weight (output_layer M))),
       map (\<lambda>j. if j = 0 then - 125 * ln 3 else 0) [0..<length (data (bias (output_layer M)))])"
    if "mlp_inv M" for M
  proof -
    have g: "grads_ok M (data (weight (hidden1 M)), data (bias (hidden1 M)),
               data (weight (output_layer M)), data (bias (output_layer M)))"
      by (rule grads_ok_data [OF that])
    then show ?thesis
      by (simp add: grads_ok_def shaped_def list_all_length)
  qed
  then show ?thesis by (simp add: autograd_ok_def)
qed

lemma example_model_ok:
  "mlp_inv (MLP_init 1 1 2 [[1]] [0] [[0], [0]] [0, 0])"
  "in_features (hidden1 (MLP_init 1 1 2 [[1]] [0] [[0], [0]] [0, 0])) = 1"
  "out_features (output_layer (MLP_init 1 1 2 [[1]] [0] [[0], [0]] [0, 0])) = 2"
  by (simp_all add: MLP_init_def fresh_def mlp_inv_def linear_inv_def param_ok_def shaped_def)

lemma example_data_ok:
  "\<forall>e. e < nat n \<longrightarrow>
       length ((\<lambda>e. [([[0::real]], [0::nat])]) e) = 1
       \<and> list_all (batch_ok 1 2) ((\<lambda>e. [([[0::real]], [0::nat])]) e)"
  by (simp add: batch_ok_def)

lemma example_after_one:
  "model_after
     (\<lambda>M X y.
      (map (map (\<lambda>v. 0)) (data (weight (hidden1 M))),
       map (\<lambda>v. 0) (data (bias (hidden1 M))),
       map (map (\<lambda>v. 0)) (data (weight (output_layer M))),
       map (\<lambda>j. if j = 0 then - 125 * ln 3 else 0) [0..<length (data (bias (output_layer M)))]))
     MLP_optimizer ((MLP_init 1 1 2 [[1]] [0] [[0], [0]] [0, 0])\<lparr>training := True\<rparr>)
     [([[0]], [0])]
   = \<lparr>hidden1 = \<lparr>in_features = 1, out_features = 1,
                  weight = \<lparr>data = [[1]], grad = Some [[0]], momentum_buffer = Some [[0]]\<rparr>,
                  bias = \<lparr>data = [0], grad = Some [0], momentum_buffer = Some [0]\<rparr>\<rparr>,
      output_layer = \<lparr>in_features = 1, out_features = 2,
                  weight = \<lparr>data = [[0], [0]], grad = Some [[0], [0]],
                            momentum_buffer = Some [[0], [0]]\<rparr>,
                  bias = \<lparr>data = [ln 3, 0], grad = Some [- 125 * ln 3, 0],
                          momentum_buffer = Some [- 125 * ln 3, 0]\<rparr>\<rparr>,
      training = True\<rparr>"
  by (simp add: model_after_def MLP_init_def fresh_def step_def backward_def zero_grad_def
      accumulate_def sgd_param_def MLP_optimizer_def alpha_def gamma_def Let_def
      vadd_def vscale_def madd_def mscale_def upt_rec numeral_2_eq_2)

lemma example_batches:
  "batches_in_order (\<lambda>e. [([[0::real]], [0::nat])]) 2 = [([[0]], [0]), ([[0]], [0])]"
  "batches_in_order (\<lambda>e. [([[0::real]], [0::nat])]) (Suc 0) = [([[0]], [0])]"
  by (simp_all add: batches_in_order_def upt_rec numeral_2_eq_2)

lemma example_forward_start:
  "forward ((MLP_init 1 1 2 [[1]] [0] [[0], [0]] [0, 0])\<lparr>training := True\<rparr>) [[0]]
     = Inr [[0, 0]]"
  by (simp add: MLP_init_def fresh_def forward_def linear_forward_def relu_def dot_def)

lemma example_forward_after_one:
  "forward
     \<lparr>hidden1 = \<lparr>in_features = 1, out_features = 1,
                  weight = \<lparr>data = [[1]], grad = Some [[0]], momentum_buffer = Some [[0]]\<rparr>,
                  bias = \<lparr>data = [0], grad = Some [0], momentum_buffer = Some [0]\<rparr>\<rparr>,
      output_layer = \<lparr>in_features = 1, out_features = 2,
                  weight = \<lparr>data = [[0], [0]], grad = Some [[0], [0]],
                            momentum_buffer = Some [[0], [0]]\<rparr>,
                  bias = \<lparr>data = [ln 3, 0], grad = Some [- 125 * ln 3, 0],
                          momentum_buffer = Some [- 125 * ln 3, 0]\<rparr>\<rparr>,
      training = True\<rparr> [[0]]
     = Inr [[ln 3, 0]]"
  by (simp add: forward_def linear_forward_def relu_def dot_def)

lemma example_loss_start: "loss_func [2 / 3, 2] [[0, 0]] [0] = Inr (Fin (ln 2))"
proof -
  have "loss_func [2 / 3, 2] [[0, 0]] [0] =
      Inr (Fin (sum_list (map2 (sample_loss [2 / 3, 2]) [[0, 0]] [0])
                 / sum_list (map (\<lambda>y. [2 / 3, 2::real] ! y) [0])))"
    by (rule loss_func_closed) simp_all
  then show ?thesis by (simp add: sample_loss_even)
qed

lemma example_loss_after_one: "loss_func [2 / 3, 2] [[ln 3, 0]] [0] = Inr (Fin (ln (4 / 3)))"
proof -
  have "loss_func [2 / 3, 2] [[ln 3, 0]] [0] =
      Inr (Fin (sum_list (map2 (sample_loss [2 / 3, 2]) [[ln 3, 0]] [0])
                 / sum_list (map (\<lambda>y. [2 / 3, 2::real] ! y) [0])))"
    by (rule loss_func_closed) simp_all
  moreover have "sum_list (map2 (sample_loss [2 / 3, 2]) [[ln 3, 0]] [0])
                 / sum_list (map (\<lambda>y. [2 / 3, 2::real] ! y) [0]) = ln (4 / 3)"
    by (simp add: sample_loss_def ln_div field_simps)
  ultimately show ?thesis by simp
qed

text \<open>
  C10.  For a count of epochs \<open>num_epochs \<ge> 0\<close> and training data of \<open>B\<close> batches per
  epoch, each fitting the classifier, the training loop returns, and its loss list has
  \<open>num_epochs * B\<close> entries, one per processed batch, in processing order: entry \<open>k\<close>
  is the loss of the \<open>k\<close>-th batch of the run, computed from the forward pass of the
  model as the batches before it have left it.  The list of a run of
  \<open>k \<le> num_epochs\<close> epochs is the first \<open>k * B\<close> entries of the full run's list.
\<close>

theorem train_losses_per_batch:
  assumes ne: "0 \<le> num_epochs" and inv: "mlp_inv M" and G: "autograd_ok G"
    and din: "in_features (hidden1 M) = input_dim"
    and dout: "out_features (output_layer M) = num_classes"
    and w: "length w = num_classes"
    and D: "\<forall>e. e < nat num_epochs \<longrightarrow>
               length (training_data e) = B
               \<and> list_all (batch_ok input_dim num_classes) (training_data e)"
  shows "\<exists>s. train_ANN_model G num_epochs training_data M (loss_func w) optimizer = Inr s
            \<and> int (length (train_losses s)) = num_epochs * int B
            \<and> length (train_losses s) = length (batches_in_order training_data (nat num_epochs))
            \<and> (\<forall>k<length (train_losses s). \<exists>out.
                  forward (model_after G optimizer (M\<lparr>training := True\<rparr>)
                             (take k (batches_in_order training_data (nat num_epochs))))
                          (fst (batches_in_order training_data (nat num_epochs) ! k)) = Inr out
                  \<and> loss_func w out (snd (batches_in_order training_data (nat num_epochs) ! k))
                      = Inr (train_losses s ! k))
            \<and> (\<forall>k. 0 \<le> k \<and> k \<le> num_epochs \<longrightarrow>
                  (\<exists>s_k. train_ANN_model G k training_data M (loss_func w) optimizer = Inr s_k
                     \<and> train_losses s_k = take (nat k * B) (train_losses s)))"
proof -
  obtain s where s: "train_ANN_model G num_epochs training_data M (loss_func w) optimizer = Inr s"
    and len: "length (train_losses s) = nat num_epochs * B"
    and lb: "length (train_losses s) = length (batches_in_order training_data (nat num_epochs))"
    and each: "\<forall>k<length (train_losses s). \<exists>out.
                  forward (model_after G optimizer (M\<lparr>training := True\<rparr>)
                             (take k (batches_in_order training_data (nat num_epochs))))
                          (fst (batches_in_order training_data (nat num_epochs) ! k)) = Inr out
                  \<and> loss_func w out (snd (batches_in_order training_data (nat num_epochs) ! k))
                      = Inr (train_losses s ! k)"
    using train_run_trace [OF inv G din dout w D, of optimizer] by blast
  have a: "int (length (train_losses s)) = num_epochs * int B"
    using len ne by simp
  have b: "\<forall>k. 0 \<le> k \<and> k \<le> num_epochs \<longrightarrow>
                  (\<exists>s_k. train_ANN_model G k training_data M (loss_func w) optimizer = Inr s_k
                     \<and> train_losses s_k = take (nat k * B) (train_losses s))"
    using train_run_prefix [OF inv G din dout w D s] by blast
  show ?thesis using s a lb each b by blast
qed

theorem train_losses_per_batch_witness:
  "(0::int) \<le> 2
   \<and> mlp_inv (MLP_init 1 1 2 [[1]] [0] [[0], [0]] [0, 0])
   \<and> list_all (batch_ok 1 2) [([[0::real]], [0::nat])]
   \<and> (\<exists>s. train_ANN_model
              (\<lambda>M X y.
                 (map (map (\<lambda>v. 0)) (data (weight (hidden1 M))),
                  map (\<lambda>v. 0) (data (bias (hidden1 M))),
                  map (map (\<lambda>v. 0)) (data (weight (output_layer M))),
                  map (\<lambda>j. if j = 0 then - 125 * ln 3 else 0)
                    [0..<length (data (bias (output_layer M)))]))
              2 (\<lambda>e. [([[0]], [0])])
              (MLP_init 1 1 2 [[1]] [0] [[0], [0]] [0, 0])
              (loss_func [2 / 3, 2]) MLP_optimizer = Inr s
          \<and> train_losses s = [Fin (ln 2), Fin (ln (4 / 3))])"
proof -
  let ?G = "\<lambda>M X y.
                 (map (map (\<lambda>v. 0)) (data (weight (hidden1 M))),
                  map (\<lambda>v. 0) (data (bias (hidden1 M))),
                  map (map (\<lambda>v. 0)) (data (weight (output_layer M))),
                  map (\<lambda>j. if j = 0 then - 125 * ln 3 else (0::real))
                    [0..<length (data (bias (output_layer M)))])"
  let ?D = "\<lambda>e::nat. [([[0::real]], [0::nat])]"
  let ?M = "MLP_init 1 1 2 [[1]] [0] [[0], [0]] [0, 0]"
  have ne: "(0::int) \<le> 2" by simp
  have w: "length [2 / 3, 2::real] = 2" by simp
  obtain s where s: "train_ANN_model ?G 2 ?D ?M (loss_func [2 / 3, 2]) MLP_optimizer = Inr s"
    and lb: "length (train_losses s) = length (batches_in_order ?D (nat 2))"
    and each: "\<forall>k<length (train_losses s). \<exists>out.
                  forward (model_after ?G MLP_optimizer (?M\<lparr>training := True\<rparr>)
                             (take k (batches_in_order ?D (nat 2))))
                          (fst (batches_in_order ?D (nat 2) ! k)) = Inr out
                  \<and> loss_func [2 / 3, 2] out (snd (batches_in_order ?D (nat 2) ! k))
                      = Inr (train_losses s ! k)"
    using train_losses_per_batch [OF ne example_model_ok(1) example_autograd_ok
        example_model_ok(2,3) w example_data_ok [of 2], of MLP_optimizer]
    by blast
  have len: "length (train_losses s) = 2" using lb by (simp add: example_batches)
  have "\<exists>out. forward (model_after ?G MLP_optimizer (?M\<lparr>training := True\<rparr>)
                             (take 0 (batches_in_order ?D (nat 2))))
                          (fst (batches_in_order ?D (nat 2) ! 0)) = Inr out
                  \<and> loss_func [2 / 3, 2] out (snd (batches_in_order ?D (nat 2) ! 0))
                      = Inr (train_losses s ! 0)"
    using each [rule_format, of 0] len by simp
  then have l0: "train_losses s ! 0 = Fin (ln 2)"
    by (simp add: example_batches model_after_Nil example_forward_start [simplified]
        example_loss_start)
  have "\<exists>out. forward (model_after ?G MLP_optimizer (?M\<lparr>training := True\<rparr>)
                             (take 1 (batches_in_order ?D (nat 2))))
                          (fst (batches_in_order ?D (nat 2) ! 1)) = Inr out
                  \<and> loss_func [2 / 3, 2] out (snd (batches_in_order ?D (nat 2) ! 1))
                      = Inr (train_losses s ! 1)"
    using each [rule_format, of 1] len by simp
  then have l1: "train_losses s ! 1 = Fin (ln (4 / 3))"
    by (simp add: example_batches example_after_one [simplified]
        example_forward_after_one [simplified] example_loss_after_one)
  have "train_losses s = [Fin (ln 2), Fin (ln (4 / 3))]"
    using len l0 l1 by (intro nth_equalityI) (auto simp add: less_Suc_eq numeral_2_eq_2)
  then show ?thesis
    using s example_model_ok(1) by (auto simp add: batch_ok_def)
qed

lemma grad_sgd_param: "grad (sgd_param scale add opt p) = grad p"
  by (simp add: sgd_param_def Let_def split: option.splits)

lemma grads_of_step: "grads_of (step opt M) = grads_of M"
  by (simp add: grads_of_def step_def grad_sgd_param)

lemma grads_of_backward_fresh:
  "grads_of (backward G (zero_grad M) X y) =
     (case G (zero_grad M) X y of
        (gW1, gb1, gW2, gb2) \<Rightarrow> (Some gW1, Some gb1, Some gW2, Some gb2))"
  by (simp add: grads_of_def backward_def accumulate_def zero_grad_def split: prod.splits)

lemma zero_grad_idem: "zero_grad (zero_grad M) = zero_grad M"
  by (simp add: zero_grad_def)

lemma train_batch_reset_first:
  "train_batch G lf opt (s\<lparr>model := zero_grad (model s)\<rparr>) b = train_batch G lf opt s b"
  by (simp add: train_batch_def zero_grad_idem Let_def split: prod.splits)

text \<open>
  C5 (as amended).  In every training-loop iteration the operations of a batch occur
  in the order: gradient reset, forward pass, loss computation, backward pass,
  optimizer step.  A batch that returns has run the forward pass and the loss on the
  model before its update, and leaves the model that the reset, then the backward
  pass, then the optimizer step make of it; the whole run leaves the model these
  updates make of the initial one, batch after batch.  The reset precedes the batch's
  backward pass, so after a batch the gradients held are those of this batch alone,
  and what the gradient slots held before the batch has no effect on it: gradients
  never accumulate across batches.
\<close>

theorem train_batch_order:
  assumes inv: "mlp_inv M" and G: "autograd_ok G"
    and din: "in_features (hidden1 M) = input_dim"
    and dout: "out_features (output_layer M) = num_classes"
    and w: "length w = num_classes"
    and D: "\<forall>e. e < nat num_epochs \<longrightarrow>
               length (training_data e) = B
               \<and> list_all (batch_ok input_dim num_classes) (training_data e)"
  shows "(\<exists>s. train_ANN_model G num_epochs training_data M (loss_func w) optimizer = Inr s
            \<and> events s = concat (replicate (nat num_epochs * B)
                                    [ZeroGrad, Forward, Loss, Backward, Step])
            \<and> model s = model_after G optimizer (M\<lparr>training := True\<rparr>)
                           (batches_in_order training_data (nat num_epochs)))
       \<and> (\<forall>s features labels s'.
             train_batch G (loss_func w) optimizer s (features, labels) = Inr s' \<longrightarrow>
             events s' = events s @ [ZeroGrad, Forward, Loss, Backward, Step]
             \<and> (\<exists>out l. forward (zero_grad (model s)) features = Inr out
                   \<and> loss_func w out labels = Inr l
                   \<and> train_losses s' = train_losses s @ [l])
             \<and> model s' = step optimizer (backward G (zero_grad (model s)) features labels)
             \<and> grads_of (model s') =
                 (case G (zero_grad (model s)) features labels of
                    (gW1, gb1, gW2, gb2) \<Rightarrow> (Some gW1, Some gb1, Some gW2, Some gb2)))
       \<and> (\<forall>s b. train_batch G (loss_func w) optimizer (s\<lparr>model := zero_grad (model s)\<rparr>) b
                 = train_batch G (loss_func w) optimizer s b)"
proof -
  have a: "\<exists>s. train_ANN_model G num_epochs training_data M (loss_func w) optimizer = Inr s
            \<and> events s = concat (replicate (nat num_epochs * B)
                                    [ZeroGrad, Forward, Loss, Backward, Step])
            \<and> model s = model_after G optimizer (M\<lparr>training := True\<rparr>)
                           (batches_in_order training_data (nat num_epochs))"
    using train_run_trace [OF inv G din dout w D, of optimizer] by blast
  have b: "\<forall>s features labels s'.
             train_batch G (loss_func w) optimizer s (features, labels) = Inr s' \<longrightarrow>
             events s' = events s @ [ZeroGrad, Forward, Loss, Backward, Step]
             \<and> (\<exists>out l. forward (zero_grad (model s)) features = Inr out
                   \<and> loss_func w out labels = Inr l
                   \<and> train_losses s' = train_losses s @ [l])
             \<and> model s' = step optimizer (backward G (zero_grad (model s)) features labels)
             \<and> grads_of (model s') =
                 (case G (zero_grad (model s)) features labels of
                    (gW1, gb1, gW2, gb2) \<Rightarrow> (Some gW1, Some gb1, Some gW2, Some gb2))"
  proof (intro allI impI)
    fix s features labels s'
    assume r: "train_batch G (loss_func w) optimizer s (features, labels) = Inr s'"
    obtain out l where f: "forward (model s) features = Inr out"
      and l: "loss_func w out labels = Inr l"
      and tl: "train_losses s' = train_losses s @ [l]"
      and e: "events s' = events s @ [ZeroGrad, Forward, Loss, Backward, Step]"
      and m: "model s' = step optimizer (backward G (zero_grad (model s)) features labels)"
      using train_batch_Inr [OF r] by blast
    have fl: "\<exists>out l. forward (zero_grad (model s)) features = Inr out
                   \<and> loss_func w out labels = Inr l
                   \<and> train_losses s' = train_losses s @ [l]"
      using f l tl by (simp add: forward_zero_grad)
    have g: "grads_of (model s') =
                 (case G (zero_grad (model s)) features labels of
                    (gW1, gb1, gW2, gb2) \<Rightarrow> (Some gW1, Some gb1, Some gW2, Some gb2))"
      by (simp add: m grads_of_step grads_of_backward_fresh)
    show "events s' = events s @ [ZeroGrad, Forward, Loss, Backward, Step]
             \<and> (\<exists>out l. forward (zero_grad (model s)) features = Inr out
                   \<and> loss_func w out labels = Inr l
                   \<and> train_losses s' = train_losses s @ [l])
             \<and> model s' = step optimizer (backward G (zero_grad (model s)) features labels)
             \<and> grads_of (model s') =
                 (case G (zero_grad (model s)) features labels of
                    (gW1, gb1, gW2, gb2) \<Rightarrow> (Some gW1, Some gb1, Some gW2, Some gb2))"
      using e fl m g by blast
  qed
  show ?thesis using a b train_batch_reset_first by blast
qed

theorem train_batch_order_witness:
  "mlp_inv (MLP_init 1 1 2 [[1]] [0] [[0], [0]] [0, 0])
   \<and> list_all (batch_ok 1 2) [([[0::real]], [0::nat])]
   \<and> (\<exists>s. train_ANN_model
              (\<lambda>M X y.
                 (map (map (\<lambda>v. 0)) (data (weight (hidden1 M))),
                  map (\<lambda>v. 0) (data (bias (hidden1 M))),
                  map (map (\<lambda>v. 0)) (data (weight (output_layer M))),
                  map (\<lambda>j. if j = 0 then - 125 * ln 3 else 0)
                    [0..<length (data (bias (output_layer M)))]))
              1 (\<lambda>e. [([[0]], [0])])
              (MLP_init 1 1 2 [[1]] [0] [[0], [0]] [0, 0])
              (loss_func [2 / 3, 2]) MLP_optimizer = Inr s
          \<and> events s = [ZeroGrad, Forward, Loss, Backward, Step]
          \<and> data (bias (output_layer (model s))) = [ln 3, 0]
          \<and> grad (bias (output_layer (model s))) = Some [- 125 * ln 3, 0]
          \<and> momentum_buffer (bias (output_layer (model s))) = Some [- 125 * ln 3, 0])"
proof -
  let ?G = "\<lambda>M X y.
                 (map (map (\<lambda>v. 0)) (data (weight (hidden1 M))),
                  map (\<lambda>v. 0) (data (bias (hidden1 M))),
                  map (map (\<lambda>v. 0)) (data (weight (output_layer M))),
                  map (\<lambda>j. if j = 0 then - 125 * ln 3 else (0::real))
                    [0..<length (data (bias (output_layer M)))])"
  let ?D = "\<lambda>e::nat. [([[0::real]], [0::nat])]"
  let ?M = "MLP_init 1 1 2 [[1]] [0] [[0], [0]] [0, 0]"
  have w: "length [2 / 3, 2::real] = 2" by simp
  have "\<exists>s. train_ANN_model ?G 1 ?D ?M (loss_func [2 / 3, 2]) MLP_optimizer = Inr s
            \<and> events s = concat (replicate (nat 1 * 1)
                                    [ZeroGrad, Forward, Loss, Backward, Step])
            \<and> model s = model_after ?G MLP_optimizer (?M\<lparr>training := True\<rparr>)
                           (batches_in_order ?D (nat 1))"
    using train_batch_order [OF example_model_ok(1) example_autograd_ok
        example_model_ok(2,3) w example_data_ok [of 1], of MLP_optimizer]
    by (rule conjunct1)
  then obtain s where s: "train_ANN_model ?G 1 ?D ?M (loss_func [2 / 3, 2]) MLP_optimizer = Inr s"
    and e: "events s = [ZeroGrad, Forward, Loss, Backward, Step]"
    and m: "model s = model_after ?G MLP_optimizer (?M\<lparr>training := True\<rparr>) [([[0]], [0])]"
    by (auto simp add: example_batches)
  have "data (bias (output_layer (model s))) = [ln 3, 0]
          \<and> grad (bias (output_layer (model s))) = Some [- 125 * ln 3, 0]
          \<and> momentum_buffer (bias (output_layer (model s))) = Some [- 125 * ln 3, 0]"
    by (simp add: m example_after_one [simplified])
  then show ?thesis
    using s e example_model_ok(1) by (auto simp add: batch_ok_def)
qed

text \<open>
  The order the specification states (forward pass, loss, reset, backward pass,
  optimizer step) is not the order of the code: in a run of one epoch over one batch
  the reset comes first.
\<close>

theorem train_batch_order_counterexample:
  "\<exists>s. train_ANN_model
          (\<lambda>M X y.
             (map (map (\<lambda>v. 0)) (data (weight (hidden1 M))),
              map (\<lambda>v. 0) (data (bias (hidden1 M))),
              map (map (\<lambda>v. 0)) (data (weight (output_layer M))),
              map (\<lambda>j. if j = 0 then - 125 * ln 3 else 0)
                [0..<length (data (bias (output_layer M)))]))
          1 (\<lambda>e. [([[0]], [0])])
          (MLP_init 1 1 2 [[1]] [0] [[0], [0]] [0, 0])
          (loss_func [2 / 3, 2]) MLP_optimizer = Inr s
      \<and> events s = [ZeroGrad, Forward, Loss, Backward, Step]
      \<and> events s \<noteq> spec_batch_order"
proof -
  let ?G = "\<lambda>M X y.
                 (map (map (\<lambda>v. 0)) (data (weight (hidden1 M))),
                  map (\<lambda>v. 0) (data (bias (hidden1 M))),
                  map (map (\<lambda>v. 0)) (data (weight (output_layer M))),
                  map (\<lambda>j. if j = 0 then - 125 * ln 3 else (0::real))
                    [0..<length (data (bias (output_layer M)))])"
  let ?D = "\<lambda>e::nat. [([[0::real]], [0::nat])]"
  let ?M = "MLP_init 1 1 2 [[1]] [0] [[0], [0]] [0, 0]"
  have w: "length [2 / 3, 2::real] = 2" by simp
  obtain s where s: "train_ANN_model ?G 1 ?D ?M (loss_func [2 / 3, 2]) MLP_optimizer = Inr s"
    and e: "events s = concat (replicate (nat 1 * 1) [ZeroGrad, Forward, Loss, Backward, Step])"
    using train_run_trace [OF example_model_ok(1) example_autograd_ok
        example_model_ok(2,3) w example_data_ok [of 1], of MLP_optimizer]
    by blast
  have e': "events s = [ZeroGrad, Forward, Loss, Backward, Step]" using e by simp
  have "events s \<noteq> spec_batch_order" by (simp add: e' spec_batch_order_def)
  then show ?thesis using s e' by blast
qed

section \<open>Properties of the evaluation loop\<close>

text \<open>
  C6.  Whatever the model and the test data, and whether the evaluation returns or
  raises, the model it leaves differs from the one it was given in the training-mode
  flag only: both layers, with their weights, biases, gradients and momentum buffers
  (the optimizer's velocity state), are unchanged.
\<close>

theorem test_leaves_parameters:
  "fst (test_ANN_model M testing_data) = M\<lparr>training := False\<rparr>
   \<and> hidden1 (fst (test_ANN_model M testing_data)) = hidden1 M
   \<and> output_layer (fst (test_ANN_model M testing_data)) = output_layer M
   \<and> grads_of (fst (test_ANN_model M testing_data)) = grads_of M"
  by (simp add: test_ANN_model_def Let_def grads_of_def)

theorem test_leaves_parameters_witness:
  "fst (test_ANN_model (MLP_init 2 1 2 [[1, - 1]] [0] [[1], [2]] [0, 1])
          [([[3, 1], [1, 3]], [0, 1])])
     = (MLP_init 2 1 2 [[1, - 1]] [0] [[1], [2]] [0, 1])\<lparr>training := False\<rparr>
   \<and> snd (test_ANN_model (MLP_init 2 1 2 [[1, - 1]] [0] [[1], [2]] [0, 1])
          [([[3, 1], [1, 3]], [0, 1])])
     = Inr ([1, 1], [0, 1])"
proof -
  have "snd (test_ANN_model (MLP_init 2 1 2 [[1, - 1]] [0] [[1], [2]] [0, 1])
          [([[3, 1], [1, 3]], [0, 1])])
     = Inr ([1, 1], [0, 1])"
    by (simp add: test_ANN_model_def Let_def MLP_init_def fresh_def forward_def
        linear_forward_def relu_def dot_def argmax_def count_correct_def)
  then show ?thesis
    using test_leaves_parameters
      [of "MLP_init 2 1 2 [[1, - 1]] [0] [[1], [2]] [0, 1]" "[([[3, 1], [1, 3]], [0, 1])]"]
    by simp
qed

section \<open>Properties of the precision\<close>

lemma no_positive_pairs:
  "1 \<notin> set y_pred \<Longrightarrow> filter (\<lambda>(t, p). p = (1::nat) \<and> Q t) (zip y_true y_pred) = []"
  by (auto simp add: filter_empty_conv dest: set_zip_rightD)

lemma binary_present:
  assumes "set ys \<subseteq> {0, 1::nat}"
  shows "length (remdups ys) \<le> 2" and "length (remdups ys) = 2 \<Longrightarrow> 1 \<in> set ys"
proof -
  have c: "length (remdups ys) = card (set ys)" by (simp add: length_remdups_card_conv)
  have "card (set ys) \<le> card {0, 1::nat}" using assms by (intro card_mono) simp_all
  then show "length (remdups ys) \<le> 2" using c by simp
  show "1 \<in> set ys" if "length (remdups ys) = 2"
  proof (rule ccontr)
    assume "1 \<notin> set ys"
    then have "set ys \<subseteq> {0}" using assms by auto
    then have "card (set ys) \<le> card {0::nat}" by (intro card_mono) simp_all
    then show False using that c by simp
  qed
qed

text \<open>
  C7.  For label sequences of equal length over \<open>{0, 1}\<close> in which no label is predicted
  positive (\<open>TP + FP = 0\<close>), the precision is defined, no error is raised, and its
  value is the fallback: 1 as the program calls it, and in general the value passed as
  \<open>zero_division\<close>.
\<close>

theorem precision_zero_division:
  assumes len: "length y_true = length y_pred"
    and bin: "set y_true \<union> set y_pred \<subseteq> {0, 1}"
    and none: "1 \<notin> set y_pred"
  shows "precision y_true y_pred = Inr 1
         \<and> precision_score y_true y_pred zero_division = Inr zero_division"
proof -
  have sub: "set (y_true @ y_pred) \<subseteq> {0, 1}" using bin by simp
  have a: "\<not> 2 < length (remdups (y_true @ y_pred))"
    using binary_present(1) [OF sub] by simp
  have b: "\<not> (length (remdups (y_true @ y_pred)) = 2 \<and> 1 \<notin> set (remdups (y_true @ y_pred)))"
    using binary_present(2) [OF sub] by auto
  have tp: "filter (\<lambda>(t, p). p = 1 \<and> t = 1) (zip y_true y_pred) = []"
    by (rule no_positive_pairs [OF none])
  have fp: "filter (\<lambda>(t, p). p = 1 \<and> t \<noteq> 1) (zip y_true y_pred) = []"
    by (rule no_positive_pairs [OF none])
  have "precision_score y_true y_pred z = Inr z" for z
    using len a b tp fp by (simp add: precision_score_def Let_def)
  then show ?thesis by (simp add: precision_def)
qed

theorem precision_zero_division_witness:
  "length [0, 1, 0::nat] = length [0, 0, 0::nat]
   \<and> set [0, 1, 0::nat] \<union> set [0, 0, 0] \<subseteq> {0, 1}
   \<and> 1 \<notin> set [0, 0, 0::nat]
   \<and> precision [0, 1, 0] [0, 0, 0] = Inr 1"
proof -
  have len: "length [0, 1, 0::nat] = length [0, 0, 0::nat]" by simp
  have bin: "set [0, 1, 0::nat] \<union> set [0, 0, 0] \<subseteq> {0, 1}" by simp
  have none: "1 \<notin> set [0, 0, 0::nat]" by simp
  show ?thesis
    using precision_zero_division [OF len bin none, of 0] len bin none by simp
qed

end
